theory Spec2Isabelle
  imports Main
begin

section \<open>Python values, exceptions and strings\<close>

text \<open>
  The three modules are Python.  A value that the code passes around without
  fixing its type is a \<open>pyval\<close>: \<open>None\<close>, a bool, an int, a str, a list, a dict with
  string keys (an association list in insertion order) or an instance of some class,
  described by the parameter \<open>'o\<close>.  A \<open>str\<close> is a \<open>string\<close>.  The functions \<open>lower\<close>
  and \<open>upper\<close> below convert the letters A to Z and a to z and leave every other
  character as it is, which is what \<open>str.lower\<close> and \<open>str.upper\<close> do on ASCII text.  They
  stand for the built-ins where the code compares the result with \<open>max\<close> and \<open>min\<close> and
  where it upper-cases a validation ingestion policy (\<open>always\<close> or \<open>strict\<close>); where the
  result on any text is what the caller gets, the built-in is a parameter.
\<close>

datatype 'o pyval =
    PNone
  | PBool bool
  | PInt int
  | PStr string
  | PList "'o pyval list"
  | PDict "(string \<times> 'o pyval) list"
  | PObj 'o

text \<open>
  Exceptions are values.  \<open>RestAPIError\<close> is the transport client's single backend
  error, carrying the HTTP status and a message; \<open>Raised\<close> stands for any exception
  of a collaborator that is not one of the named classes.
\<close>

datatype error =
    FeatureStoreException string
  | TypeError string
  | ValueError string
  | AttributeError string
  | AssertionError string
  | RestAPIError int string
  | Raised string

definition lower_char :: "char \<Rightarrow> char" where
  "lower_char c =
     (case map_of (zip ''ABCDEFGHIJKLMNOPQRSTUVWXYZ'' ''abcdefghijklmnopqrstuvwxyz'') c of
        Some d \<Rightarrow> d
      | None \<Rightarrow> c)"

definition upper_char :: "char \<Rightarrow> char" where
  "upper_char c =
     (case map_of (zip ''abcdefghijklmnopqrstuvwxyz'' ''ABCDEFGHIJKLMNOPQRSTUVWXYZ'') c of
        Some d \<Rightarrow> d
      | None \<Rightarrow> c)"

text \<open>\<open>s.lower()\<close> and \<open>s.upper()\<close>.\<close>

definition lower :: "string \<Rightarrow> string" where
  "lower s = map lower_char s"

definition upper :: "string \<Rightarrow> string" where
  "upper s = map upper_char s"

text \<open>\<open>str(i)\<close> for an int: the decimal digits, with a minus sign below zero.\<close>

fun str_nat :: "nat \<Rightarrow> string" where
  "str_nat n =
     (if n < 10 then [''0123456789'' ! n]
      else str_nat (n div 10) @ [''0123456789'' ! (n mod 10)])"

declare str_nat.simps [simp del]

definition str_int :: "int \<Rightarrow> string" where
  "str_int i = (if i < 0 then CHR ''-'' # str_nat (nat (- i)) else str_nat (nat i))"

text \<open>Python truthiness, as \<open>if x:\<close> tests it.  An instance is true.\<close>

fun truthy :: "'o pyval \<Rightarrow> bool" where
  "truthy PNone = False"
| "truthy (PBool b) = b"
| "truthy (PInt i) = (i \<noteq> 0)"
| "truthy (PStr s) = (s \<noteq> [])"
| "truthy (PList xs) = (xs \<noteq> [])"
| "truthy (PDict kvs) = (kvs \<noteq> [])"
| "truthy (PObj _) = True"

text \<open>\<open>d[k] = v\<close>: replaces the value of an existing key in place, appends a new key.\<close>

fun dict_set :: "(string \<times> 'v) list \<Rightarrow> string \<Rightarrow> 'v \<Rightarrow> (string \<times> 'v) list" where
  "dict_set [] k v = [(k, v)]"
| "dict_set ((k', v') # kvs) k v =
     (if k' = k then (k, v) # kvs else (k', v') # dict_set kvs k v)"

section \<open>The transport client\<close>

text \<open>
  \<open>client.get_instance()\<close> gives the session's client: its project id and name, and
  \<open>_send_request(method, path_params, query_params, headers, data)\<close>.  A request is
  the record of those five arguments; an argument that the call leaves out is
  \<open>None\<close>.  What the backend answers is a parameter of the model
  (\<open>backend_reply\<close>): a function of the requests sent so far and of the request, giving
  the decoded JSON or the \<open>RestAPIError\<close> raised for a non-2xx response.  Sending a
  request appends it to the log of requests, which is how the model observes the
  network.
\<close>

record 'o request =
  req_method :: string
  req_path_params :: "'o pyval list"
  req_query_params :: "(string \<times> 'o pyval) list option"
  req_headers :: "(string \<times> string) list option"
  req_data :: "string option"

record 'o client =
  project_id :: "'o pyval"
  project_name :: string
  backend_reply :: "'o request list \<Rightarrow> 'o request \<Rightarrow> error + 'o pyval"

definition send_request ::
  "'o client \<Rightarrow> 'o request \<Rightarrow> 'o request list \<Rightarrow> (error + 'o pyval) \<times> 'o request list" where
  "send_request c r log = (backend_reply c log r, log @ [r])"

section \<open>hopsworks\_common/core/opensearch\_api.py\<close>

text \<open>
  \<open>OpenSearchApi.get_project_index\<close>: reads the client's project name and sends
  nothing, so the log of requests is returned as it came.  The decorator
  \<open>usage.method_logger\<close> records that the method was used and is left out.

  The method calls Python's \<open>str.lower\<close> on a string that the caller chooses.  That
  built-in follows the Unicode case tables, which the model does not hold, so it is a
  parameter here (\<open>str_lower\<close>); what is known of it is that on text of ASCII
  characters only it is \<open>lower\<close>, the conversion of the letters A to Z.
\<close>

definition ascii_text :: "string \<Rightarrow> bool" where
  "ascii_text s = list_all (\<lambda>c. (of_char c :: nat) < 128) s"

definition get_project_index ::
  "(string \<Rightarrow> string) \<Rightarrow> 'o client \<Rightarrow> string \<Rightarrow> 'o request list \<Rightarrow>
     string \<times> 'o request list" where
  "get_project_index str_lower c index log = (str_lower (project_name c @ ''_'' @ index), log)"

section \<open>hsml/core/model\_api.py\<close>

text \<open>
  \<open>model.Model\<close> is not part of these files.  The model keeps the attributes that
  \<open>ModelApi\<close> reads and writes; \<open>Model.from_response_json\<close> is a parameter, which
  returns one object for a single entity and a list for a response with a count.
\<close>

record 'o model =
  model_id :: "'o pyval"
  model_name :: string
  model_version :: int
  model_registry_id :: int
  shared_registry_project_name :: "'o pyval"

datatype 'm decoded = One 'm | Many "'m list"

text \<open>
  \<open>ModelApi.get_models\<close>.  \<open>metric\<close> and \<open>direction\<close> are \<open>None\<close> or a str.  The loop
  over \<open>models_meta\<close> needs a list: on a single object it raises \<open>TypeError\<close>.
\<close>

definition get_models ::
  "'o client \<Rightarrow> ('o pyval \<Rightarrow> error + 'o model decoded) \<Rightarrow> string \<Rightarrow> 'o pyval \<Rightarrow> 'o pyval \<Rightarrow>
     string option \<Rightarrow> string option \<Rightarrow> 'o request list \<Rightarrow>
     (error + 'o model list) \<times> 'o request list" where
  "get_models c from_response_json name registry_id shared metric direction log =
     (let path_params =
            [PStr ''project'', project_id c, PStr ''modelregistries'', registry_id, PStr ''models''];
          query_params =
            [(''expand'', PStr ''trainingdatasets''),
             (''filter_by'', PList [PStr (''name_eq:'' @ name)])];
          query_params =
            (case (metric, direction) of
               (Some m, Some d) \<Rightarrow>
                 (let d = (if lower d = ''max'' then ''desc''
                           else if lower d = ''min'' then ''asc'' else d)
                  in dict_set (dict_set query_params ''sort_by'' (PStr (m @ '':'' @ d)))
                       ''limit'' (PStr ''1''))
             | _ \<Rightarrow> query_params);
          (model_json, log') =
            send_request c
              \<lparr>req_method = ''GET'', req_path_params = path_params,
               req_query_params = Some query_params, req_headers = None, req_data = None\<rparr> log
      in case model_json of
           Inl e \<Rightarrow> (Inl e, log')
         | Inr model_json \<Rightarrow>
             (case from_response_json model_json of
                Inl e \<Rightarrow> (Inl e, log')
              | Inr (One m) \<Rightarrow> (Inl (TypeError ''Model object is not iterable''), log')
              | Inr (Many models_meta) \<Rightarrow>
                  (Inr (map (\<lambda>m. m\<lparr>shared_registry_project_name := shared\<rparr>) models_meta),
                   log')))"

text \<open>
  Modelled from the spec: the decorator \<open>catch_not_found\<close> of \<open>hsml/decorators.py\<close>
  is not among the files.  The spec says that a backend 404-class response is caught at
  the wrapper of a read operation and turned into the fallback value, and that any
  other backend error propagates unchanged.  A backend error is \<open>RestAPIError\<close> with
  its status; not-found is status 404.
\<close>

definition not_found :: "error \<Rightarrow> bool" where
  "not_found e = (case e of RestAPIError status _ \<Rightarrow> status = 404 | _ \<Rightarrow> False)"

definition catch_not_found :: "'a \<Rightarrow> (error + 'a) \<times> 'w \<Rightarrow> (error + 'a) \<times> 'w" where
  "catch_not_found fallback_return res =
     (case res of
        (Inl e, w) \<Rightarrow> if not_found e then (Inr fallback_return, w) else (Inl e, w)
      | (Inr x, w) \<Rightarrow> (Inr x, w))"

text \<open>
  \<open>ModelApi.get\<close>, first the decorated body, then the method.  The result is a
  \<open>Model\<close> or \<open>None\<close>.  Setting the attribute of the decoded object needs a single
  object: a list has no such attribute.
\<close>

definition get_body ::
  "'o client \<Rightarrow> ('o pyval \<Rightarrow> error + 'o model decoded) \<Rightarrow> string \<Rightarrow> int \<Rightarrow> 'o pyval \<Rightarrow>
     'o pyval \<Rightarrow> 'o request list \<Rightarrow> (error + 'o model option) \<times> 'o request list" where
  "get_body c from_response_json name version registry_id shared log =
     (let path_params =
            [PStr ''project'', project_id c, PStr ''modelregistries'', registry_id, PStr ''models'',
             PStr (name @ ''_'' @ str_int version)];
          query_params = [(''expand'', PStr ''trainingdatasets'')];
          (model_json, log') =
            send_request c
              \<lparr>req_method = ''GET'', req_path_params = path_params,
               req_query_params = Some query_params, req_headers = None, req_data = None\<rparr> log
      in case model_json of
           Inl e \<Rightarrow> (Inl e, log')
         | Inr model_json \<Rightarrow>
             (case from_response_json model_json of
                Inl e \<Rightarrow> (Inl e, log')
              | Inr (Many ms) \<Rightarrow>
                  (Inl (AttributeError
                     ''list object has no attribute shared_registry_project_name''), log')
              | Inr (One model_meta) \<Rightarrow>
                  (Inr (Some (model_meta\<lparr>shared_registry_project_name := shared\<rparr>)), log')))"

definition get ::
  "'o client \<Rightarrow> ('o pyval \<Rightarrow> error + 'o model decoded) \<Rightarrow> string \<Rightarrow> int \<Rightarrow> 'o pyval \<Rightarrow>
     'o pyval \<Rightarrow> 'o request list \<Rightarrow> (error + 'o model option) \<times> 'o request list" where
  "get c from_response_json name version registry_id shared log =
     catch_not_found None (get_body c from_response_json name version registry_id shared log)"

text \<open>
  \<open>ModelApi.get_tags\<close>.  \<open>tag.Tag\<close> is not part of these files: a tag object has a
  name and a value, the value a JSON text; \<open>Tag.from_response_json\<close> and \<open>json.loads\<close>
  are parameters.  The dict comprehension runs over the tags in order, decodes each
  value and stores it under the tag's name, so a later tag of the same name replaces
  the value of an earlier one; the first value that does not decode raises.
\<close>

record tag =
  tag_name :: string
  tag_value :: string

fun tags_dict ::
  "(string \<Rightarrow> error + 'o pyval) \<Rightarrow> tag list \<Rightarrow> (string \<times> 'o pyval) list \<Rightarrow>
     error + (string \<times> 'o pyval) list" where
  "tags_dict json_loads [] acc = Inr acc"
| "tags_dict json_loads (t # ts) acc =
     (case json_loads (tag_value t) of
        Inl e \<Rightarrow> Inl e
      | Inr v \<Rightarrow> tags_dict json_loads ts (dict_set acc (tag_name t) v))"

definition get_tags_body ::
  "'o client \<Rightarrow> ('o pyval \<Rightarrow> error + tag list) \<Rightarrow> (string \<Rightarrow> error + 'o pyval) \<Rightarrow>
     'o model \<Rightarrow> 'o request list \<Rightarrow> (error + (string \<times> 'o pyval) list) \<times> 'o request list" where
  "get_tags_body c from_response_json json_loads model_instance log =
     (let path_params =
            [PStr ''project'', project_id c, PStr ''modelregistries'',
             PStr (str_int (model_registry_id model_instance)), PStr ''models'',
             model_id model_instance, PStr ''tags''];
          (tags_json, log') =
            send_request c
              \<lparr>req_method = ''GET'', req_path_params = path_params,
               req_query_params = None, req_headers = None, req_data = None\<rparr> log
      in case tags_json of
           Inl e \<Rightarrow> (Inl e, log')
         | Inr tags_json \<Rightarrow>
             (case from_response_json tags_json of
                Inl e \<Rightarrow> (Inl e, log')
              | Inr tags \<Rightarrow> (tags_dict json_loads tags [], log')))"

definition get_tags ::
  "'o client \<Rightarrow> ('o pyval \<Rightarrow> error + tag list) \<Rightarrow> (string \<Rightarrow> error + 'o pyval) \<Rightarrow>
     'o model \<Rightarrow> 'o request list \<Rightarrow> (error + (string \<times> 'o pyval) list) \<times> 'o request list" where
  "get_tags c from_response_json json_loads model_instance log =
     catch_not_found [] (get_tags_body c from_response_json json_loads model_instance log)"

text \<open>
  The provenance lookups.  \<open>explicit_provenance.Links\<close> is not part of these files:
  \<open>Links.from_response_json\<close>, which filters the answer by direction and type, and
  \<open>is_empty\<close> are parameters, and the two enumerations have the members that this
  module names.  A method that ends without \<open>return\<close> gives \<open>None\<close>.
\<close>

datatype links_direction = UPSTREAM

datatype links_type = FEATURE_VIEW | TRAINING_DATASET

text \<open>The path that both lookups build.\<close>

definition provenance_path_params :: "'o client \<Rightarrow> 'o model \<Rightarrow> 'o pyval list" where
  "provenance_path_params c model_instance =
     [PStr ''project'', project_id c, PStr ''modelregistries'',
      PStr (str_int (model_registry_id model_instance)), PStr ''models'',
      model_id model_instance, PStr ''provenance'', PStr ''links'']"

definition get_feature_view_provenance ::
  "'o client \<Rightarrow> ('o pyval \<Rightarrow> links_direction \<Rightarrow> links_type \<Rightarrow> error + 'l) \<Rightarrow> ('l \<Rightarrow> bool) \<Rightarrow>
     'o model \<Rightarrow> 'o request list \<Rightarrow> (error + 'l option) \<times> 'o request list" where
  "get_feature_view_provenance c from_response_json is_empty model_instance log =
     (let path_params = provenance_path_params c model_instance;
          query_params =
            [(''expand'', PStr ''provenance_artifacts''), (''upstreamLvls'', PInt 2),
             (''downstreamLvls'', PInt 0)];
          (links_json, log') =
            send_request c
              \<lparr>req_method = ''GET'', req_path_params = path_params,
               req_query_params = Some query_params, req_headers = None, req_data = None\<rparr> log
      in case links_json of
           Inl e \<Rightarrow> (Inl e, log')
         | Inr links_json \<Rightarrow>
             (case from_response_json links_json UPSTREAM FEATURE_VIEW of
                Inl e \<Rightarrow> (Inl e, log')
              | Inr links \<Rightarrow> (if \<not> is_empty links then (Inr (Some links), log') else (Inr None, log'))))"

definition get_training_dataset_provenance ::
  "'o client \<Rightarrow> ('o pyval \<Rightarrow> links_direction \<Rightarrow> links_type \<Rightarrow> error + 'l) \<Rightarrow> ('l \<Rightarrow> bool) \<Rightarrow>
     'o model \<Rightarrow> 'o request list \<Rightarrow> (error + 'l option) \<times> 'o request list" where
  "get_training_dataset_provenance c from_response_json is_empty model_instance log =
     (let path_params = provenance_path_params c model_instance;
          query_params =
            [(''expand'', PStr ''provenance_artifacts''), (''upstreamLvls'', PInt 1),
             (''downstreamLvls'', PInt 0)];
          (links_json, log') =
            send_request c
              \<lparr>req_method = ''GET'', req_path_params = path_params,
               req_query_params = Some query_params, req_headers = None, req_data = None\<rparr> log
      in case links_json of
           Inl e \<Rightarrow> (Inl e, log')
         | Inr links_json \<Rightarrow>
             (case from_response_json links_json UPSTREAM TRAINING_DATASET of
                Inl e \<Rightarrow> (Inl e, log')
              | Inr links \<Rightarrow> (if \<not> is_empty links then (Inr (Some links), log') else (Inr None, log'))))"

section \<open>hsfs/expectation\_suite.py\<close>

subsection \<open>What the module imports\<close>

text \<open>
  The values of this module are \<open>pyval\<close>s whose instances are \<open>GeExpectation\<close> objects
  (type \<open>'e\<close>), \<open>great_expectations\<close> \<open>ExpectationConfiguration\<close> objects (type
  \<open>'c\<close>) or instances of another class, given by its qualified name.
\<close>

datatype ('e, 'c) obj =
    GeExpectation 'e
  | ExpectationConfiguration 'c
  | Instance string

type_synonym ('e, 'c) val = "('e, 'c) obj pyval"

type_synonym ('e, 'c) kwargs = "(string \<times> ('e, 'c) val) list"

text \<open>
  The two engines of \<open>hsfs.core\<close> are not part of these files.  An engine object is the
  record of its constructor's arguments.  Calling a method of an engine is the suite's
  only way to the backend: the model logs every such call, and what the call returns
  or raises is a parameter (\<open>engine_reply\<close>), a function of the calls made so far and of
  the call.
\<close>

record ('e, 'c) expectation_engine =
  ee_feature_store_id :: "('e, 'c) val"
  ee_feature_group_id :: "('e, 'c) val"
  ee_expectation_suite_id :: "('e, 'c) val"

record ('e, 'c) expectation_suite_engine =
  se_feature_store_id :: "('e, 'c) val"
  se_feature_group_id :: "('e, 'c) val"

datatype ('e, 'c) engine_call =
    Engine_get "('e, 'c) expectation_engine" "('e, 'c) val"
  | Engine_create "('e, 'c) expectation_engine" "('e, 'c) val"
  | Engine_check_for_id "('e, 'c) expectation_engine" "('e, 'c) val"
  | Engine_update "('e, 'c) expectation_engine" "('e, 'c) val"
  | Engine_delete "('e, 'c) expectation_engine" "('e, 'c) val"
  | Engine_get_expectations_by_suite_id "('e, 'c) expectation_engine"
  | Suite_engine_update_metadata_from_fields "('e, 'c) expectation_suite_engine" "('e, 'c) kwargs"

text \<open>
  The rest of what the module imports, as parameters: the two constants of
  \<open>hsfs.core.constants\<close>, the \<open>GeExpectation\<close> class (its constructor called with
  keyword arguments, \<open>to_json_dict\<close>, \<open>to_ge_type\<close>), \<open>to_json_dict\<close> of an
  \<open>ExpectationConfiguration\<close>, \<open>json.loads\<close> and \<open>json.dumps\<close>, and what
  \<open>humps.decamelize\<close> makes of a single key.
\<close>

record ('e, 'c) env =
  HAS_GREAT_EXPECTATIONS :: bool
  initialise_expectation_suite_for_single_expectation_api_message :: string
  GeExpectation_init :: "('e, 'c) kwargs \<Rightarrow> error + 'e"
  ge_to_json_dict :: "'e \<Rightarrow> ('e, 'c) kwargs"
  ge_to_ge_type :: "'e \<Rightarrow> error + 'c"
  configuration_to_json_dict :: "'c \<Rightarrow> ('e, 'c) kwargs"
  json_loads :: "string \<Rightarrow> error + ('e, 'c) val"
  json_dumps :: "('e, 'c) val \<Rightarrow> error + string"
  decamelize_key :: "string \<Rightarrow> string"
  engine_reply :: "('e, 'c) engine_call list \<Rightarrow> ('e, 'c) engine_call \<Rightarrow> error + ('e, 'c) val"

definition engine_call ::
  "('e, 'c) env \<Rightarrow> ('e, 'c) engine_call \<Rightarrow> ('e, 'c) engine_call list \<Rightarrow>
     (error + ('e, 'c) val) \<times> ('e, 'c) engine_call list" where
  "engine_call env call log = (engine_reply env log call, log @ [call])"

text \<open>
  \<open>humps.decamelize\<close> on a dict or a list: the keys of every dict, at any depth, are
  converted, in order, a later key replacing an equal earlier one; any other value is
  returned as it is.
\<close>

fun process_keys :: "(string \<Rightarrow> string) \<Rightarrow> 'o pyval \<Rightarrow> 'o pyval"
  and process_list :: "(string \<Rightarrow> string) \<Rightarrow> 'o pyval list \<Rightarrow> 'o pyval list"
  and process_items ::
    "(string \<Rightarrow> string) \<Rightarrow> (string \<times> 'o pyval) list \<Rightarrow> (string \<times> 'o pyval) list \<Rightarrow>
       (string \<times> 'o pyval) list" where
  "process_keys f (PList xs) = PList (process_list f xs)"
| "process_keys f (PDict kvs) = PDict (process_items f kvs [])"
| "process_keys f PNone = PNone"
| "process_keys f (PBool b) = PBool b"
| "process_keys f (PInt i) = PInt i"
| "process_keys f (PStr s) = PStr s"
| "process_keys f (PObj x) = PObj x"
| "process_list f [] = []"
| "process_list f (x # xs) = process_keys f x # process_list f xs"
| "process_items f [] acc = acc"
| "process_items f ((k, v) # kvs) acc =
     process_items f kvs (dict_set acc (f k) (process_keys f v))"

definition humps_decamelize :: "('e, 'c) env \<Rightarrow> ('e, 'c) kwargs \<Rightarrow> ('e, 'c) kwargs" where
  "humps_decamelize env d = process_items (decamelize_key env) d []"

text \<open>
  The keys of a value are in snake case already when the conversion of a key leaves
  each key of each dict in it, at any depth, as it is.  The keys of one dict are
  distinct, as in every Python dict.
\<close>

fun keys_kept :: "(string \<Rightarrow> string) \<Rightarrow> 'o pyval \<Rightarrow> bool"
  and keys_kept_list :: "(string \<Rightarrow> string) \<Rightarrow> 'o pyval list \<Rightarrow> bool"
  and keys_kept_items :: "(string \<Rightarrow> string) \<Rightarrow> (string \<times> 'o pyval) list \<Rightarrow> bool" where
  "keys_kept f (PList xs) = keys_kept_list f xs"
| "keys_kept f (PDict kvs) = (distinct (map fst kvs) \<and> keys_kept_items f kvs)"
| "keys_kept f PNone = True"
| "keys_kept f (PBool b) = True"
| "keys_kept f (PInt i) = True"
| "keys_kept f (PStr s) = True"
| "keys_kept f (PObj x) = True"
| "keys_kept_list f [] = True"
| "keys_kept_list f (x # xs) = (keys_kept f x \<and> keys_kept_list f xs)"
| "keys_kept_items f [] = True"
| "keys_kept_items f ((k, v) # kvs) = (f k = k \<and> keys_kept f v \<and> keys_kept_items f kvs)"

text \<open>What \<open>type(x)\<close> prints: the class name between \<open><class '\<close> and \<open>'>\<close>.\<close>

fun class_name :: "('e, 'c) val \<Rightarrow> string" where
  "class_name PNone = ''NoneType''"
| "class_name (PBool b) = ''bool''"
| "class_name (PInt i) = ''int''"
| "class_name (PStr s) = ''str''"
| "class_name (PList xs) = ''list''"
| "class_name (PDict kvs) = ''dict''"
| "class_name (PObj (GeExpectation e)) = ''hsfs.ge_expectation.GeExpectation''"
| "class_name (PObj (ExpectationConfiguration c)) =
     ''great_expectations.core.expectation_configuration.ExpectationConfiguration''"
| "class_name (PObj (Instance cls)) = cls"

definition type_str :: "('e, 'c) val \<Rightarrow> string" where
  "type_str x = ''<class '' @ [CHR 0x27] @ class_name x @ [CHR 0x27] @ ''>''"

subsection \<open>The suite\<close>

text \<open>
  The attributes of an \<open>ExpectationSuite\<close>.  \<open>_expectation_suite_engine\<close> is assigned
  late in \<open>__init__\<close>, after the setters have run, and the \<open>meta\<close> setter asks
  \<open>hasattr\<close> for it: the attribute is \<open>Unassigned\<close> until then.
\<close>

datatype 'a attr = Unassigned | Assigned 'a

record ('e, 'c) suite =
  es_id :: "('e, 'c) val"
  es_expectation_suite_name :: "('e, 'c) val"
  es_ge_cloud_id :: "('e, 'c) val"
  es_data_asset_type :: "('e, 'c) val"
  es_run_validation :: "('e, 'c) val"
  es_validation_ingestion_policy :: string
  es_expectations :: "'e list"
  es_href :: "('e, 'c) val"
  es_feature_store_id :: "('e, 'c) val"
  es_feature_group_id :: "('e, 'c) val"
  es_meta :: "('e, 'c) val"
  es_expectation_engine :: "('e, 'c) expectation_engine option"
  es_expectation_suite_engine :: "('e, 'c) expectation_suite_engine option attr"

text \<open>
  A method that mutates the suite returns what it returns or raises, the suite as the
  call leaves it, and the log of engine calls.
\<close>

type_synonym ('a, 'e, 'c) outcome =
  "(error + 'a) \<times> ('e, 'c) suite \<times> ('e, 'c) engine_call list"

text \<open>\<open>to_dict\<close> and \<open>to_json_dict\<close>.\<close>

definition to_dict :: "('e, 'c) env \<Rightarrow> ('e, 'c) suite \<Rightarrow> error + ('e, 'c) kwargs" where
  "to_dict env self =
     (case json_dumps env (es_meta self) of
        Inl e \<Rightarrow> Inl e
      | Inr meta \<Rightarrow>
          Inr [(''id'', es_id self),
               (''featureStoreId'', es_feature_store_id self),
               (''featureGroupId'', es_feature_group_id self),
               (''expectationSuiteName'', es_expectation_suite_name self),
               (''expectations'', PList (map (\<lambda>e. PObj (GeExpectation e)) (es_expectations self))),
               (''meta'', PStr meta),
               (''geCloudId'', es_ge_cloud_id self),
               (''dataAssetType'', es_data_asset_type self),
               (''runValidation'', es_run_validation self),
               (''validationIngestionPolicy'', PStr (upper (es_validation_ingestion_policy self)))])"

definition to_json_dict :: "('e, 'c) env \<Rightarrow> ('e, 'c) suite \<Rightarrow> bool \<Rightarrow> ('e, 'c) kwargs" where
  "to_json_dict env self decamelize =
     (let the_dict =
            [(''id'', es_id self),
             (''featureStoreId'', es_feature_store_id self),
             (''featureGroupId'', es_feature_group_id self),
             (''expectationSuiteName'', es_expectation_suite_name self),
             (''expectations'', PList (map (\<lambda>e. PDict (ge_to_json_dict env e)) (es_expectations self))),
             (''meta'', es_meta self),
             (''geCloudId'', es_ge_cloud_id self),
             (''dataAssetType'', es_data_asset_type self),
             (''runValidation'', es_run_validation self),
             (''validationIngestionPolicy'', PStr (upper (es_validation_ingestion_policy self)))]
      in if decamelize then humps_decamelize env the_dict else the_dict)"

text \<open>
  The \<open>AttributeError\<close> that reading attribute \<open>name\<close> of an object of class \<open>cls\<close>
  raises.
\<close>

definition no_attribute :: "string \<Rightarrow> string \<Rightarrow> error" where
  "no_attribute cls name =
     AttributeError ([CHR 0x27] @ cls @ [CHR 0x27] @ '' object has no attribute ''
       @ [CHR 0x27] @ name @ [CHR 0x27])"

text \<open>\<open>_convert_expectation\<close>, and the list comprehension that applies it in order.\<close>

definition convert_expectation :: "('e, 'c) env \<Rightarrow> ('e, 'c) val \<Rightarrow> error + 'e" where
  "convert_expectation env expectation =
     (case expectation of
        PObj (ExpectationConfiguration c) \<Rightarrow>
          if HAS_GREAT_EXPECTATIONS env then GeExpectation_init env (configuration_to_json_dict env c)
          else Inl (TypeError (''Expectation of type '' @ type_str expectation @ '' is not supported.''))
      | PObj (GeExpectation e) \<Rightarrow> Inr e
      | PDict d \<Rightarrow> GeExpectation_init env d
      | _ \<Rightarrow> Inl (TypeError (''Expectation of type '' @ type_str expectation @ '' is not supported.'')))"

fun convert_all :: "('e, 'c) env \<Rightarrow> ('e, 'c) val list \<Rightarrow> error + 'e list" where
  "convert_all env [] = Inr []"
| "convert_all env (x # xs) =
     (case convert_expectation env x of
        Inl e \<Rightarrow> Inl e
      | Inr y \<Rightarrow> (case convert_all env xs of Inl e \<Rightarrow> Inl e | Inr ys \<Rightarrow> Inr (y # ys)))"

text \<open>The \<open>expectations\<close> setter.  It calls no engine.\<close>

definition expectations_setter ::
  "('e, 'c) env \<Rightarrow> ('e, 'c) suite \<Rightarrow> ('e, 'c) val \<Rightarrow> error + ('e, 'c) suite" where
  "expectations_setter env self expectations =
     (case expectations of
        PNone \<Rightarrow> Inr (self\<lparr>es_expectations := []\<rparr>)
      | PList xs \<Rightarrow>
          (case convert_all env xs of
             Inl e \<Rightarrow> Inl e
           | Inr ys \<Rightarrow> Inr (self\<lparr>es_expectations := ys\<rparr>))
      | _ \<Rightarrow>
          Inl (TypeError (''Type '' @ type_str expectations
                 @ '' not supported. Expectations must be None or a list.'')))"

text \<open>
  The statement that four setters share:
  \<open>self._expectation_suite_engine.update_metadata_from_fields(**humps.decamelize(self.to_dict()))\<close>.
  The method is looked up first, so a suite without engine raises before \<open>to_dict\<close> runs.
\<close>

definition update_metadata_from_fields ::
  "('e, 'c) env \<Rightarrow> ('e, 'c) suite \<Rightarrow> ('e, 'c) engine_call list \<Rightarrow> (unit, 'e, 'c) outcome" where
  "update_metadata_from_fields env self log =
     (case es_expectation_suite_engine self of
        Unassigned \<Rightarrow>
          (Inl (no_attribute ''ExpectationSuite''
                  ''_expectation_suite_engine''), self, log)
      | Assigned None \<Rightarrow> (Inl (no_attribute ''NoneType'' ''update_metadata_from_fields''), self, log)
      | Assigned (Some engine) \<Rightarrow>
          (case to_dict env self of
             Inl e \<Rightarrow> (Inl e, self, log)
           | Inr d \<Rightarrow>
               (case engine_call env
                       (Suite_engine_update_metadata_from_fields engine (humps_decamelize env d)) log of
                  (Inl e, log') \<Rightarrow> (Inl e, self, log')
                | (Inr r, log') \<Rightarrow> (Inr (), self, log'))))"

text \<open>The \<open>meta\<close> setter.\<close>

definition meta_setter ::
  "('e, 'c) env \<Rightarrow> ('e, 'c) suite \<Rightarrow> ('e, 'c) val \<Rightarrow> ('e, 'c) engine_call list \<Rightarrow>
     (unit, 'e, 'c) outcome" where
  "meta_setter env self meta log =
     (let stored =
            (case meta of
               PDict d \<Rightarrow> Inr (self\<lparr>es_meta := meta\<rparr>)
             | PStr s \<Rightarrow>
                 (case json_loads env s of
                    Inl e \<Rightarrow> Inl e
                  | Inr v \<Rightarrow> Inr (self\<lparr>es_meta := v\<rparr>))
             | _ \<Rightarrow> Inl (ValueError ''Meta field must be stringified json or dict.''))
      in case stored of
           Inl e \<Rightarrow> (Inl e, self, log)
         | Inr self' \<Rightarrow>
             if truthy (es_id self') \<and> es_expectation_suite_engine self' \<noteq> Unassigned
             then update_metadata_from_fields env self' log
             else (Inr (), self', log))"

text \<open>
  \<open>_init_feature_store_and_feature_group_ids_from_href\<close>.  \<open>re.search\<close> finds the
  leftmost place where the pattern
  \<open>/featurestores/(\d+)/featuregroups/(\d+)/expectationsuite*\<close> matches.  After the
  digits of a group the pattern wants a slash, so the group takes all the digits
  there are; the last \<open>e\<close> of the pattern may be absent.  Digits are the ASCII ones.
\<close>

definition is_digit :: "char \<Rightarrow> bool" where
  "is_digit c = (c \<in> set ''0123456789'')"

definition int_of_digits :: "string \<Rightarrow> int" where
  "int_of_digits ds = foldl (\<lambda>a c. 10 * a + int (of_char c - 48)) 0 ds"

definition strip_prefix :: "string \<Rightarrow> string \<Rightarrow> string option" where
  "strip_prefix p s = (if take (length p) s = p then Some (drop (length p) s) else None)"

definition match_href_here :: "string \<Rightarrow> (int \<times> int) option" where
  "match_href_here s =
     (case strip_prefix ''/featurestores/'' s of
        None \<Rightarrow> None
      | Some s1 \<Rightarrow>
          (let d1 = takeWhile is_digit s1 in
           if d1 = [] then None
           else case strip_prefix ''/featuregroups/'' (dropWhile is_digit s1) of
                  None \<Rightarrow> None
                | Some s2 \<Rightarrow>
                    (let d2 = takeWhile is_digit s2 in
                     if d2 = [] then None
                     else case strip_prefix ''/expectationsuit'' (dropWhile is_digit s2) of
                            None \<Rightarrow> None
                          | Some s3 \<Rightarrow> Some (int_of_digits d1, int_of_digits d2))))"

fun search_href :: "string \<Rightarrow> (int \<times> int) option" where
  "search_href [] = match_href_here []"
| "search_href (c # cs) =
     (case match_href_here (c # cs) of Some ids \<Rightarrow> Some ids | None \<Rightarrow> search_href cs)"

definition init_feature_store_and_feature_group_ids_from_href ::
  "('e, 'c) suite \<Rightarrow> ('e, 'c) val \<Rightarrow> error + ('e, 'c) suite" where
  "init_feature_store_and_feature_group_ids_from_href self href =
     (case href of
        PStr h \<Rightarrow>
          (case search_href h of
             None \<Rightarrow> Inl (no_attribute ''NoneType'' ''groups'')
           | Some (feature_store_id, feature_group_id) \<Rightarrow>
               Inr (self\<lparr>es_feature_store_id := PInt feature_store_id,
                          es_feature_group_id := PInt feature_group_id\<rparr>))
      | _ \<Rightarrow> Inl (TypeError ''expected string or bytes-like object''))"

text \<open>
  \<open>__init__\<close>, with its parameters in order and \<open>**kwargs\<close> last.  Only a str has
  \<open>upper\<close> among the values of the model.  The \<open>meta\<close> setter runs while
  \<open>_expectation_suite_engine\<close> is not assigned yet.
\<close>

definition ExpectationSuite_init ::
  "('e, 'c) env \<Rightarrow> ('e, 'c) val \<Rightarrow> ('e, 'c) val \<Rightarrow> ('e, 'c) val \<Rightarrow> ('e, 'c) val \<Rightarrow> ('e, 'c) val \<Rightarrow>
     ('e, 'c) val \<Rightarrow> ('e, 'c) val \<Rightarrow> ('e, 'c) val \<Rightarrow> ('e, 'c) val \<Rightarrow> ('e, 'c) kwargs \<Rightarrow>
     ('e, 'c) engine_call list \<Rightarrow> (error + ('e, 'c) suite) \<times> ('e, 'c) engine_call list" where
  "ExpectationSuite_init env expectation_suite_name expectations meta id' run_validation
       validation_ingestion_policy feature_store_id feature_group_id href kwargs log =
     (case validation_ingestion_policy of
        PStr policy \<Rightarrow>
          (let self =
                 \<lparr>es_id = id',
                  es_expectation_suite_name = expectation_suite_name,
                  es_ge_cloud_id = (case map_of kwargs ''ge_cloud_id'' of Some v \<Rightarrow> v | None \<Rightarrow> PNone),
                  es_data_asset_type =
                    (case map_of kwargs ''data_asset_type'' of Some v \<Rightarrow> v | None \<Rightarrow> PNone),
                  es_run_validation = run_validation,
                  es_validation_ingestion_policy = upper policy,
                  es_expectations = [],
                  es_href = href,
                  es_feature_store_id = PNone,
                  es_feature_group_id = PNone,
                  es_meta = PNone,
                  es_expectation_engine = None,
                  es_expectation_suite_engine = Unassigned\<rparr>;
               with_parents =
                 (if feature_store_id \<noteq> PNone \<and> feature_group_id \<noteq> PNone
                  then Inr (self\<lparr>es_feature_store_id := feature_store_id,
                                  es_feature_group_id := feature_group_id\<rparr>)
                  else if href \<noteq> PNone
                  then init_feature_store_and_feature_group_ids_from_href self href
                  else Inr (self\<lparr>es_feature_group_id := PNone, es_feature_store_id := PNone\<rparr>))
           in case with_parents of
                Inl e \<Rightarrow> (Inl e, log)
              | Inr self \<Rightarrow>
                  (case expectations_setter env self expectations of
                     Inl e \<Rightarrow> (Inl e, log)
                   | Inr self \<Rightarrow>
                       (case meta_setter env self meta log of
                          (Inl e, self, log) \<Rightarrow> (Inl e, log)
                        | (Inr u, self, log) \<Rightarrow>
                            (let self = self\<lparr>es_expectation_engine := None,
                                             es_expectation_suite_engine := Assigned None\<rparr>
                             in if truthy (es_id self)
                                then if es_feature_store_id self = PNone
                                     then (Inl (AssertionError
                                       ''feature_store_id should not be None if expectation suite id is provided''),
                                       log)
                                     else if es_feature_group_id self = PNone
                                     then (Inl (AssertionError
                                       ''feature_group_id should not be None if expectation suite id is provided''),
                                       log)
                                     else (Inr (self
                                       \<lparr>es_expectation_engine :=
                                          Some \<lparr>ee_feature_store_id = es_feature_store_id self,
                                                ee_feature_group_id = es_feature_group_id self,
                                                ee_expectation_suite_id = es_id self\<rparr>,
                                        es_expectation_suite_engine :=
                                          Assigned (Some
                                            \<lparr>se_feature_store_id = es_feature_store_id self,
                                             se_feature_group_id = es_feature_group_id self\<rparr>)\<rparr>),
                                       log)
                                else (Inr self, log)))))
      | _ \<Rightarrow> (Inl (no_attribute (class_name validation_ingestion_policy) ''upper''), log))"

text \<open>
  Calling the class with keyword arguments only, \<open>ExpectationSuite(**d)\<close>: the three
  parameters without default must be among the keys, a parameter with a default takes
  it when its key is absent, and every other key goes to \<open>**kwargs\<close>.  The
  \<open>TypeError\<close> for missing parameters has Python's message: their number, then their
  names in the order of the signature, each in single quotes.
\<close>

fun and_last :: "string list \<Rightarrow> string" where
  "and_last [] = []"
| "and_last [z] = ''and '' @ [CHR 0x27] @ z @ [CHR 0x27]"
| "and_last (y # z # zs) = [CHR 0x27] @ y @ [CHR 0x27] @ '', '' @ and_last (z # zs)"

fun quoted_names :: "string list \<Rightarrow> string" where
  "quoted_names [] = []"
| "quoted_names [a] = [CHR 0x27] @ a @ [CHR 0x27]"
| "quoted_names [a, b] = [CHR 0x27] @ a @ [CHR 0x27] @ '' and '' @ [CHR 0x27] @ b @ [CHR 0x27]"
| "quoted_names (a # b # c # cs) = [CHR 0x27] @ a @ [CHR 0x27] @ '', '' @ and_last (b # c # cs)"

definition missing_arguments :: "string list \<Rightarrow> error" where
  "missing_arguments missing =
     TypeError (''ExpectationSuite.__init__() missing '' @ str_nat (length missing)
       @ '' required positional argument'' @ (if length missing = 1 then [] else ''s'')
       @ '': '' @ quoted_names missing)"

definition init_parameters :: "string list" where
  "init_parameters =
     [''expectation_suite_name'', ''expectations'', ''meta'', ''id'', ''run_validation'',
      ''validation_ingestion_policy'', ''feature_store_id'', ''feature_group_id'', ''href'']"

definition keyword :: "('e, 'c) kwargs \<Rightarrow> string \<Rightarrow> ('e, 'c) val \<Rightarrow> ('e, 'c) val" where
  "keyword d name default_value =
     (case map_of d name of Some v \<Rightarrow> v | None \<Rightarrow> default_value)"

definition ExpectationSuite_call ::
  "('e, 'c) env \<Rightarrow> ('e, 'c) kwargs \<Rightarrow> ('e, 'c) engine_call list \<Rightarrow>
     (error + ('e, 'c) suite) \<times> ('e, 'c) engine_call list" where
  "ExpectationSuite_call env d log =
     (let missing =
            filter (\<lambda>name. map_of d name = None)
              [''expectation_suite_name'', ''expectations'', ''meta'']
      in if missing \<noteq> []
         then (Inl (missing_arguments missing), log)
         else ExpectationSuite_init env
                (keyword d ''expectation_suite_name'' PNone)
                (keyword d ''expectations'' PNone)
                (keyword d ''meta'' PNone)
                (keyword d ''id'' PNone)
                (keyword d ''run_validation'' (PBool True))
                (keyword d ''validation_ingestion_policy'' (PStr ''always''))
                (keyword d ''feature_store_id'' PNone)
                (keyword d ''feature_group_id'' PNone)
                (keyword d ''href'' PNone)
                (filter (\<lambda>(k, v). k \<notin> set init_parameters) d)
                log)"

text \<open>
  \<open>_init_expectation_engine\<close> and \<open>_init_expectation_suite_engine\<close>, which the feature
  group calls when it attaches a suite.
\<close>

definition init_expectation_engine ::
  "('e, 'c) env \<Rightarrow> ('e, 'c) suite \<Rightarrow> ('e, 'c) val \<Rightarrow> ('e, 'c) val \<Rightarrow> error + ('e, 'c) suite" where
  "init_expectation_engine env self feature_store_id feature_group_id =
     (if truthy (es_id self)
      then Inr (self\<lparr>es_expectation_engine :=
                  Some \<lparr>ee_feature_store_id = feature_store_id,
                        ee_feature_group_id = feature_group_id,
                        ee_expectation_suite_id = es_id self\<rparr>\<rparr>)
      else Inl (ValueError (initialise_expectation_suite_for_single_expectation_api_message env)))"

definition init_expectation_suite_engine ::
  "('e, 'c) suite \<Rightarrow> ('e, 'c) val \<Rightarrow> ('e, 'c) val \<Rightarrow> error + ('e, 'c) suite" where
  "init_expectation_suite_engine self feature_store_id feature_group_id =
     (if truthy feature_group_id \<and> truthy feature_store_id
      then Inr (self\<lparr>es_expectation_suite_engine :=
                  Assigned (Some \<lparr>se_feature_store_id = feature_store_id,
                                  se_feature_group_id = feature_group_id\<rparr>)\<rparr>)
      else if truthy (es_feature_group_id self) \<and> truthy (es_feature_store_id self)
      then Inr (self\<lparr>es_expectation_suite_engine :=
                  Assigned (Some \<lparr>se_feature_store_id = es_feature_store_id self,
                                  se_feature_group_id = es_feature_group_id self\<rparr>)\<rparr>)
      else Inl (ValueError
             ''Provide feature_store_id or feature_group_id to use the expectation suite API''))"

subsection \<open>The single expectation API\<close>

text \<open>\<open>x.to_ge_type()\<close> on what an engine returned: a \<open>GeExpectation\<close> has the method.\<close>

definition to_ge_type :: "('e, 'c) env \<Rightarrow> ('e, 'c) val \<Rightarrow> error + ('e, 'c) val" where
  "to_ge_type env x =
     (case x of
        PObj (GeExpectation e) \<Rightarrow>
          (case ge_to_ge_type env e of
             Inl err \<Rightarrow> Inl err
           | Inr c \<Rightarrow> Inr (PObj (ExpectationConfiguration c)))
      | _ \<Rightarrow> Inl (no_attribute (class_name x) ''to_ge_type''))"

definition get_expectation ::
  "('e, 'c) env \<Rightarrow> ('e, 'c) suite \<Rightarrow> ('e, 'c) val \<Rightarrow> bool \<Rightarrow> ('e, 'c) engine_call list \<Rightarrow>
     (('e, 'c) val, 'e, 'c) outcome" where
  "get_expectation env self expectation_id ge_type log =
     (case (truthy (es_id self), es_expectation_engine self) of
        (True, Some engine) \<Rightarrow>
          (case engine_call env (Engine_get engine expectation_id) log of
             (Inl e, log') \<Rightarrow> (Inl e, self, log')
           | (Inr x, log') \<Rightarrow>
               if ge_type then (to_ge_type env x, self, log') else (Inr x, self, log'))
      | _ \<Rightarrow>
          (Inl (FeatureStoreException
                  (initialise_expectation_suite_for_single_expectation_api_message env)),
           self, log))"

text \<open>
  The tail that \<open>add_expectation\<close> and \<open>replace_expectation\<close> share once the engine
  has answered: fetch the expectations of the suite again, assign them through the
  setter, return the expectation in the form asked for.
\<close>

definition refetch_expectations ::
  "('e, 'c) env \<Rightarrow> ('e, 'c) suite \<Rightarrow> ('e, 'c) expectation_engine \<Rightarrow> ('e, 'c) engine_call list \<Rightarrow>
     (unit, 'e, 'c) outcome" where
  "refetch_expectations env self engine log =
     (case engine_call env (Engine_get_expectations_by_suite_id engine) log of
        (Inl e, log') \<Rightarrow> (Inl e, self, log')
      | (Inr xs, log') \<Rightarrow>
          (case expectations_setter env self xs of
             Inl e \<Rightarrow> (Inl e, self, log')
           | Inr self' \<Rightarrow> (Inr (), self', log')))"

definition add_expectation ::
  "('e, 'c) env \<Rightarrow> ('e, 'c) suite \<Rightarrow> ('e, 'c) val \<Rightarrow> bool \<Rightarrow> ('e, 'c) engine_call list \<Rightarrow>
     (('e, 'c) val, 'e, 'c) outcome" where
  "add_expectation env self expectation ge_type log =
     (if truthy (es_id self)
      then case convert_expectation env expectation of
             Inl e \<Rightarrow> (Inl e, self, log)
           | Inr converted_expectation \<Rightarrow>
               (case es_expectation_engine self of
                  None \<Rightarrow> (Inl (no_attribute ''NoneType'' ''create''), self, log)
                | Some engine \<Rightarrow>
                    (case engine_call env
                            (Engine_create engine (PObj (GeExpectation converted_expectation))) log of
                       (Inl e, log') \<Rightarrow> (Inl e, self, log')
                     | (Inr converted_expectation, log') \<Rightarrow>
                         (case refetch_expectations env self engine log' of
                            (Inl e, self', log'') \<Rightarrow> (Inl e, self', log'')
                          | (Inr u, self', log'') \<Rightarrow>
                              if ge_type then (to_ge_type env converted_expectation, self', log'')
                              else (Inr converted_expectation, self', log''))))
      else (Inl (FeatureStoreException
                   (initialise_expectation_suite_for_single_expectation_api_message env)),
            self, log))"

definition replace_expectation ::
  "('e, 'c) env \<Rightarrow> ('e, 'c) suite \<Rightarrow> ('e, 'c) val \<Rightarrow> bool \<Rightarrow> ('e, 'c) engine_call list \<Rightarrow>
     (('e, 'c) val, 'e, 'c) outcome" where
  "replace_expectation env self expectation ge_type log =
     (if truthy (es_id self)
      then case convert_expectation env expectation of
             Inl e \<Rightarrow> (Inl e, self, log)
           | Inr converted_expectation \<Rightarrow>
               (case es_expectation_engine self of
                  None \<Rightarrow> (Inl (no_attribute ''NoneType'' ''check_for_id''), self, log)
                | Some engine \<Rightarrow>
                    (case engine_call env
                            (Engine_check_for_id engine (PObj (GeExpectation converted_expectation)))
                            log of
                       (Inl e, log') \<Rightarrow> (Inl e, self, log')
                     | (Inr checked, log') \<Rightarrow>
                         (case engine_call env
                                 (Engine_update engine (PObj (GeExpectation converted_expectation)))
                                 log' of
                            (Inl e, log'') \<Rightarrow> (Inl e, self, log'')
                          | (Inr converted_expectation, log'') \<Rightarrow>
                              (case refetch_expectations env self engine log'' of
                                 (Inl e, self', log''') \<Rightarrow> (Inl e, self', log''')
                               | (Inr u, self', log''') \<Rightarrow>
                                   if ge_type
                                   then (to_ge_type env converted_expectation, self', log''')
                                   else (Inr converted_expectation, self', log''')))))
      else (Inl (FeatureStoreException
                   (initialise_expectation_suite_for_single_expectation_api_message env)),
            self, log))"

definition remove_expectation ::
  "('e, 'c) env \<Rightarrow> ('e, 'c) suite \<Rightarrow> ('e, 'c) val \<Rightarrow> ('e, 'c) engine_call list \<Rightarrow>
     (unit, 'e, 'c) outcome" where
  "remove_expectation env self expectation_id log =
     (if truthy (es_id self)
      then case es_expectation_engine self of
             None \<Rightarrow> (Inl (no_attribute ''NoneType'' ''delete''), self, log)
           | Some engine \<Rightarrow>
               (case engine_call env (Engine_delete engine expectation_id) log of
                  (Inl e, log') \<Rightarrow> (Inl e, self, log')
                | (Inr r, log') \<Rightarrow> refetch_expectations env self engine log')
      else (Inl (FeatureStoreException
                   (initialise_expectation_suite_for_single_expectation_api_message env)),
            self, log))"

subsection \<open>The property setters\<close>

definition id_setter :: "('e, 'c) suite \<Rightarrow> ('e, 'c) val \<Rightarrow> ('e, 'c) suite" where
  "id_setter self id' = self\<lparr>es_id := id'\<rparr>"

definition expectation_suite_name_setter ::
  "('e, 'c) env \<Rightarrow> ('e, 'c) suite \<Rightarrow> ('e, 'c) val \<Rightarrow> ('e, 'c) engine_call list \<Rightarrow>
     (unit, 'e, 'c) outcome" where
  "expectation_suite_name_setter env self expectation_suite_name log =
     (let self = self\<lparr>es_expectation_suite_name := expectation_suite_name\<rparr>
      in if truthy (es_id self) then update_metadata_from_fields env self log
         else (Inr (), self, log))"

definition data_asset_type_setter :: "('e, 'c) suite \<Rightarrow> ('e, 'c) val \<Rightarrow> ('e, 'c) suite" where
  "data_asset_type_setter self data_asset_type = self\<lparr>es_data_asset_type := data_asset_type\<rparr>"

text \<open>The setter of \<open>ge_cloud_id\<close> is defined under the name \<open>ge_coud_id\<close>.\<close>

definition ge_coud_id_setter :: "('e, 'c) suite \<Rightarrow> ('e, 'c) val \<Rightarrow> ('e, 'c) suite" where
  "ge_coud_id_setter self ge_cloud_id = self\<lparr>es_ge_cloud_id := ge_cloud_id\<rparr>"

definition run_validation_setter ::
  "('e, 'c) env \<Rightarrow> ('e, 'c) suite \<Rightarrow> ('e, 'c) val \<Rightarrow> ('e, 'c) engine_call list \<Rightarrow>
     (unit, 'e, 'c) outcome" where
  "run_validation_setter env self run_validation log =
     (let self = self\<lparr>es_run_validation := run_validation\<rparr>
      in if truthy (es_id self) then update_metadata_from_fields env self log
         else (Inr (), self, log))"

definition validation_ingestion_policy_setter ::
  "('e, 'c) env \<Rightarrow> ('e, 'c) suite \<Rightarrow> ('e, 'c) val \<Rightarrow> ('e, 'c) engine_call list \<Rightarrow>
     (unit, 'e, 'c) outcome" where
  "validation_ingestion_policy_setter env self validation_ingestion_policy log =
     (case validation_ingestion_policy of
        PStr policy \<Rightarrow>
          (let self = self\<lparr>es_validation_ingestion_policy := upper policy\<rparr>
           in if truthy (es_id self) then update_metadata_from_fields env self log
              else (Inr (), self, log))
      | _ \<Rightarrow> (Inl (no_attribute (class_name validation_ingestion_policy) ''upper''), self, log))"

text \<open>
  The \<open>expectations\<close> setter as a method of the same shape as the others: it leaves
  the suite as it was when it raises.
\<close>

definition expectations_assign ::
  "('e, 'c) env \<Rightarrow> ('e, 'c) suite \<Rightarrow> ('e, 'c) val \<Rightarrow> ('e, 'c) engine_call list \<Rightarrow>
     (unit, 'e, 'c) outcome" where
  "expectations_assign env self expectations log =
     (case expectations_setter env self expectations of
        Inl e \<Rightarrow> (Inl e, self, log)
      | Inr self' \<Rightarrow> (Inr (), self', log))"

text \<open>Concrete sessions and objects, for evaluating the operations.\<close>

definition demo_client :: "(error + unit pyval) \<Rightarrow> unit client" where
  "demo_client reply =
     \<lparr>project_id = PInt 119, project_name = ''MyProj'', backend_reply = (\<lambda>log r. reply)\<rparr>"

definition demo_model :: "unit model" where
  "demo_model =
     \<lparr>model_id = PInt 7, model_name = ''churn'', model_version = 2, model_registry_id = 119,
      shared_registry_project_name = PNone\<rparr>"

definition decode_one :: "unit pyval \<Rightarrow> error + unit model decoded" where
  "decode_one j = Inr (One demo_model)"

definition decode_many :: "unit pyval \<Rightarrow> error + unit model decoded" where
  "decode_many j = Inr (Many [demo_model])"

definition decode_no_tags :: "unit pyval \<Rightarrow> error + tag list" where
  "decode_no_tags j = Inr []"

definition loads_int :: "string \<Rightarrow> error + unit pyval" where
  "loads_int s = (if s = ''1'' then Inr (PInt 1) else Inl (ValueError ''JSONDecodeError''))"

definition decode_links :: "unit pyval \<Rightarrow> links_direction \<Rightarrow> links_type \<Rightarrow> error + string list" where
  "decode_links j d t = Inr (case t of FEATURE_VIEW \<Rightarrow> [] | TRAINING_DATASET \<Rightarrow> [''td_1''])"

definition no_links :: "string list \<Rightarrow> bool" where
  "no_links links = (links = [])"

text \<open>
  What \<open>humps.decamelize\<close> makes of the keys that \<open>to_dict\<close> and \<open>to_json_dict\<close> write,
  as a condition on the parameter \<open>decamelize_key\<close>.
\<close>

definition decamelizes_suite_keys :: "(string \<Rightarrow> string) \<Rightarrow> bool" where
  "decamelizes_suite_keys f =
     (f ''id'' = ''id''
      \<and> f ''featureStoreId'' = ''feature_store_id''
      \<and> f ''featureGroupId'' = ''feature_group_id''
      \<and> f ''expectationSuiteName'' = ''expectation_suite_name''
      \<and> f ''expectations'' = ''expectations''
      \<and> f ''meta'' = ''meta''
      \<and> f ''geCloudId'' = ''ge_cloud_id''
      \<and> f ''dataAssetType'' = ''data_asset_type''
      \<and> f ''runValidation'' = ''run_validation''
      \<and> f ''validationIngestionPolicy'' = ''validation_ingestion_policy'')"

text \<open>
  Two suites have the same identity when they agree on the id and on the two parent
  identifiers.
\<close>

definition same_identity :: "('e, 'c) suite \<Rightarrow> ('e, 'c) suite \<Rightarrow> bool" where
  "same_identity self self' =
     (es_id self' = es_id self
      \<and> es_feature_store_id self' = es_feature_store_id self
      \<and> es_feature_group_id self' = es_feature_group_id self)"

text \<open>
  A concrete setting for the suite: an expectation is its type name, the engines
  answer \<open>None\<close> to every call, and \<open>decamelize_key\<close> is \<open>humps.decamelize\<close> on the
  keys that \<open>to_dict\<close> and \<open>to_json_dict\<close> write, on the camel case key \<open>ownerTeam\<close>
  and on keys in snake case, which it returns as they are.
\<close>

definition demo_decamelize_key :: "string \<Rightarrow> string" where
  "demo_decamelize_key k =
     (case map_of
        [(''featureStoreId'', ''feature_store_id''),
         (''featureGroupId'', ''feature_group_id''),
         (''expectationSuiteName'', ''expectation_suite_name''),
         (''geCloudId'', ''ge_cloud_id''),
         (''dataAssetType'', ''data_asset_type''),
         (''runValidation'', ''run_validation''),
         (''validationIngestionPolicy'', ''validation_ingestion_policy''),
         (''ownerTeam'', ''owner_team'')] k of
        Some k' \<Rightarrow> k'
      | None \<Rightarrow> k)"

definition demo_GeExpectation_init :: "(string, string) kwargs \<Rightarrow> error + string" where
  "demo_GeExpectation_init d =
     (case map_of d ''expectation_type'' of
        Some (PStr t) \<Rightarrow> Inr t
      | _ \<Rightarrow> Inl (TypeError ''__init__() missing required positional arguments''))"

definition demo_to_json_dict :: "string \<Rightarrow> (string, string) kwargs" where
  "demo_to_json_dict t = [(''expectation_type'', PStr t)]"

definition demo_json_loads :: "string \<Rightarrow> error + (string, string) val" where
  "demo_json_loads s = (if s = ''{}'' then Inr (PDict []) else Inl (ValueError ''JSONDecodeError''))"

text \<open>
  \<open>json.dumps\<close> for the concrete setting: the JSON text of a value, with the
  separators that \<open>json.dumps\<close> writes, and the \<open>TypeError\<close> that it raises for an
  instance, which no encoder is registered for.  Escaping inside a str is left out.
\<close>

fun join_comma :: "string list \<Rightarrow> string" where
  "join_comma [] = []"
| "join_comma [x] = x"
| "join_comma (x # y # ys) = x @ '', '' @ join_comma (y # ys)"

fun demo_json_dumps :: "(string, string) val \<Rightarrow> error + string"
  and demo_json_dumps_list :: "(string, string) val list \<Rightarrow> error + string list"
  and demo_json_dumps_items :: "(string, string) kwargs \<Rightarrow> error + string list" where
  "demo_json_dumps PNone = Inr ''null''"
| "demo_json_dumps (PBool b) = Inr (if b then ''true'' else ''false'')"
| "demo_json_dumps (PInt i) = Inr (str_int i)"
| "demo_json_dumps (PStr s) = Inr ([CHR 0x22] @ s @ [CHR 0x22])"
| "demo_json_dumps (PList xs) =
     (case demo_json_dumps_list xs of
        Inl e \<Rightarrow> Inl e
      | Inr parts \<Rightarrow> Inr (''['' @ join_comma parts @ '']''))"
| "demo_json_dumps (PDict kvs) =
     (case demo_json_dumps_items kvs of
        Inl e \<Rightarrow> Inl e
      | Inr parts \<Rightarrow> Inr (''{'' @ join_comma parts @ ''}''))"
| "demo_json_dumps (PObj x) =
     Inl (TypeError (''Object of type '' @ class_name (PObj x) @ '' is not JSON serializable''))"
| "demo_json_dumps_list [] = Inr []"
| "demo_json_dumps_list (x # xs) =
     (case demo_json_dumps x of
        Inl e \<Rightarrow> Inl e
      | Inr part \<Rightarrow>
          (case demo_json_dumps_list xs of Inl e \<Rightarrow> Inl e | Inr parts \<Rightarrow> Inr (part # parts)))"
| "demo_json_dumps_items [] = Inr []"
| "demo_json_dumps_items ((k, v) # kvs) =
     (case demo_json_dumps v of
        Inl e \<Rightarrow> Inl e
      | Inr part \<Rightarrow>
          (case demo_json_dumps_items kvs of
             Inl e \<Rightarrow> Inl e
           | Inr parts \<Rightarrow> Inr (([CHR 0x22] @ k @ [CHR 0x22] @ '': '' @ part) # parts)))"

definition demo_engine_reply ::
  "(string, string) engine_call list \<Rightarrow> (string, string) engine_call \<Rightarrow>
     error + (string, string) val" where
  "demo_engine_reply log call = Inr PNone"

definition demo_env :: "(string, string) env" where
  "demo_env =
     \<lparr>HAS_GREAT_EXPECTATIONS = True,
      initialise_expectation_suite_for_single_expectation_api_message =
        ''Attach the expectation suite to a feature group first'',
      GeExpectation_init = demo_GeExpectation_init,
      ge_to_json_dict = demo_to_json_dict,
      ge_to_ge_type = Inr,
      configuration_to_json_dict = demo_to_json_dict,
      json_loads = demo_json_loads,
      json_dumps = demo_json_dumps,
      decamelize_key = demo_decamelize_key,
      engine_reply = demo_engine_reply\<rparr>"

text \<open>
  The suite that \<open>ExpectationSuite("sales", [{"expectation_type": ...}], {})\<close> builds,
  and the suite built with \<open>id=9\<close>, \<open>feature_store_id=67\<close> and \<open>feature_group_id=12\<close>
  besides.
\<close>

definition demo_unattached :: "(string, string) suite" where
  "demo_unattached =
     \<lparr>es_id = PNone,
      es_expectation_suite_name = PStr ''sales'',
      es_ge_cloud_id = PNone,
      es_data_asset_type = PNone,
      es_run_validation = PBool True,
      es_validation_ingestion_policy = ''ALWAYS'',
      es_expectations = [''expect_column_min_to_be_between''],
      es_href = PNone,
      es_feature_store_id = PNone,
      es_feature_group_id = PNone,
      es_meta = PDict [],
      es_expectation_engine = None,
      es_expectation_suite_engine = Assigned None\<rparr>"

definition demo_attached :: "(string, string) suite" where
  "demo_attached =
     demo_unattached
       \<lparr>es_id := PInt 9,
        es_feature_store_id := PInt 67,
        es_feature_group_id := PInt 12,
        es_expectation_engine :=
          Some \<lparr>ee_feature_store_id = PInt 67, ee_feature_group_id = PInt 12,
                ee_expectation_suite_id = PInt 9\<rparr>,
        es_expectation_suite_engine :=
          Assigned (Some \<lparr>se_feature_store_id = PInt 67, se_feature_group_id = PInt 12\<rparr>)\<rparr>"

text \<open>
  The suite built like the last one but with \<open>meta={"reviewers": {"ann"}}\<close>: a dict
  that holds a \<open>set\<close>, which \<open>json.dumps\<close> does not serialise.
\<close>

definition demo_unserialisable :: "(string, string) suite" where
  "demo_unserialisable =
     demo_attached\<lparr>es_meta := PDict [(''reviewers'', PObj (Instance ''set''))]\<rparr>"

text \<open>
  The attached suite with \<open>meta={"owner": "ops", "last_review": {"run_id": 3}}\<close>, whose
  keys are in snake case, and the unattached suite with \<open>meta={"ownerTeam": "ops"}\<close>.
\<close>

definition demo_documented :: "(string, string) suite" where
  "demo_documented =
     demo_attached
       \<lparr>es_meta := PDict [(''owner'', PStr ''ops''),
                         (''last_review'', PDict [(''run_id'', PInt 3)])]\<rparr>"

definition demo_camel_meta :: "(string, string) suite" where
  "demo_camel_meta = demo_unattached\<lparr>es_meta := PDict [(''ownerTeam'', PStr ''ops'')]\<rparr>"

section \<open>Verified properties\<close>

subsection \<open>Strings\<close>

lemma upper_char_idem: "upper_char (upper_char c) = upper_char c"
  by (simp add: upper_char_def)

lemma upper_idem: "upper (upper s) = upper s"
  by (simp add: upper_def upper_char_idem)

subsection \<open>OpenSearchApi\<close>

lemma upper_case_letter:
  assumes "65 \<le> (of_char c :: nat)" and "(of_char c :: nat) \<le> 90"
  shows "c \<in> set ''ABCDEFGHIJKLMNOPQRSTUVWXYZ''"
proof -
  let ?n = "of_char c :: nat"
  from assms have "?n \<in> {65, 66, 67, 68, 69, 70, 71, 72, 73, 74, 75, 76, 77, 78, 79, 80, 81,
      82, 83, 84, 85, 86, 87, 88, 89, 90}"
    by (simp only: insert_iff empty_iff) arith
  then have "?n \<in> (of_char :: char \<Rightarrow> nat) ` set ''ABCDEFGHIJKLMNOPQRSTUVWXYZ''"
    by simp
  then obtain d where d: "d \<in> set ''ABCDEFGHIJKLMNOPQRSTUVWXYZ''"
    and e: "(of_char c :: nat) = of_char d"
    by blast
  from e have "c = d" by simp
  with d show ?thesis by simp
qed

lemma of_char_lower_char:
  "(of_char (lower_char c) :: nat) =
     (if 65 \<le> (of_char c :: nat) \<and> (of_char c :: nat) \<le> 90 then of_char c + 32 else of_char c)"
proof (cases "c \<in> set ''ABCDEFGHIJKLMNOPQRSTUVWXYZ''")
  case True
  then show ?thesis
    by (auto simp: lower_char_def)
next
  case False
  with upper_case_letter [of c]
  have out: "\<not> (65 \<le> (of_char c :: nat) \<and> (of_char c :: nat) \<le> 90)"
    by blast
  from False have "lower_char c = c"
    by (simp add: lower_char_def)
  with out show ?thesis by simp
qed

text \<open>
  C8.  For every client and every index string, \<open>get_project_index\<close> returns what
  \<open>str.lower\<close> makes of the project name, an underscore and the index, and leaves the
  log of requests as it was: it sends nothing.  Where name and index are ASCII text,
  the result is the lower-cased name, an underscore and the lower-cased index: it has
  their length, a letter A to Z (codes 65 to 90) has become the letter 32 codes
  further, and every other character is the one it was.  With project name \<open>MyProj\<close>
  and index \<open>clicks\<close> the result is \<open>myproj_clicks\<close>.
\<close>

theorem get_project_index_lowercased_prefix:
  assumes py: "\<forall>s. ascii_text s \<longrightarrow> str_lower s = lower s"
  shows "get_project_index str_lower c index log =
           (str_lower (project_name c @ ''_'' @ index), log)
    \<and> (ascii_text (project_name c) \<and> ascii_text index \<longrightarrow>
          fst (get_project_index str_lower c index log) =
            lower (project_name c) @ ''_'' @ lower index
          \<and> map (of_char :: char \<Rightarrow> nat) (fst (get_project_index str_lower c index log)) =
              map (\<lambda>ch. if 65 \<le> (of_char ch :: nat) \<and> (of_char ch :: nat) \<le> 90
                         then of_char ch + 32 else of_char ch)
                (project_name c @ ''_'' @ index))
    \<and> fst (get_project_index str_lower (c\<lparr>project_name := ''MyProj''\<rparr>) ''clicks'' log) =
        ''myproj_clicks''"
proof (intro conjI impI)
  show "get_project_index str_lower c index log =
      (str_lower (project_name c @ ''_'' @ index), log)"
    by (simp add: get_project_index_def)
next
  assume a: "ascii_text (project_name c) \<and> ascii_text index"
  from a have "ascii_text (project_name c @ ''_'' @ index)"
    by (simp add: ascii_text_def)
  with py have r: "fst (get_project_index str_lower c index log) =
      lower (project_name c @ ''_'' @ index)"
    by (simp add: get_project_index_def)
  have u: "lower ''_'' = ''_''"
    by (simp add: lower_def lower_char_def)
  from r u show "fst (get_project_index str_lower c index log) =
      lower (project_name c) @ ''_'' @ lower index"
    by (simp add: lower_def)
  from r show "map (of_char :: char \<Rightarrow> nat) (fst (get_project_index str_lower c index log)) =
      map (\<lambda>ch. if 65 \<le> (of_char ch :: nat) \<and> (of_char ch :: nat) \<le> 90
                 then of_char ch + 32 else of_char ch)
        (project_name c @ ''_'' @ index)"
    by (simp only: r lower_def map_map comp_def of_char_lower_char)
next
  have "ascii_text ''MyProj_clicks''"
    by (simp add: ascii_text_def)
  with py have "str_lower ''MyProj_clicks'' = lower ''MyProj_clicks''"
    by blast
  then show "fst (get_project_index str_lower (c\<lparr>project_name := ''MyProj''\<rparr>) ''clicks'' log) =
      ''myproj_clicks''"
    by (simp add: get_project_index_def lower_def lower_char_def)
qed

theorem get_project_index_lowercased_prefix_witness:
  "get_project_index lower (demo_client (Inr PNone)) ''Clicks_2024'' [] = (''myproj_clicks_2024'', [])
   \<and> map (of_char :: char \<Rightarrow> nat)
       (fst (get_project_index lower (demo_client (Inr PNone)) ''AZ'' [])) =
       [109, 121, 112, 114, 111, 106, 95, 97, 122 :: nat]"
proof -
  have py: "\<forall>s. ascii_text s \<longrightarrow> lower s = lower s"
    by simp
  have a: "ascii_text (project_name (demo_client (Inr PNone)))"
    "ascii_text ''Clicks_2024''" "ascii_text ''AZ''"
    by (simp_all add: ascii_text_def demo_client_def)
  from get_project_index_lowercased_prefix [OF py, of "demo_client (Inr PNone)" "''Clicks_2024''" "[]"]
    get_project_index_lowercased_prefix [OF py, of "demo_client (Inr PNone)" "''AZ''" "[]"] a
  show ?thesis
    by (simp add: get_project_index_def demo_client_def lower_def lower_char_def)
qed

subsection \<open>ModelApi\<close>

lemma map_of_dict_set: "map_of (dict_set kvs k v) = (map_of kvs)(k \<mapsto> v)"
  by (induction kvs k v rule: dict_set.induct) (auto simp: fun_eq_iff)

lemma catch_not_found_never_not_found:
  "fst (catch_not_found fb res) = Inl e \<Longrightarrow> \<not> not_found e"
  by (auto simp: catch_not_found_def split: prod.splits sum.splits if_splits)

lemma find_snoc:
  "find P (xs @ [x]) = (case find P xs of Some y \<Rightarrow> Some y | None \<Rightarrow> if P x then Some x else None)"
  by (induction xs) auto

lemma tags_dict_lookup:
  "tags_dict jl ts acc = Inr d \<Longrightarrow>
   map_of d k =
     (case find (\<lambda>t. tag_name t = k) (rev ts) of
        Some t \<Rightarrow> (case jl (tag_value t) of Inr v \<Rightarrow> Some v | Inl e \<Rightarrow> None)
      | None \<Rightarrow> map_of acc k)"
proof (induction ts arbitrary: acc)
  case Nil
  then show ?case by simp
next
  case (Cons t ts)
  from Cons.prems obtain v where v: "jl (tag_value t) = Inr v"
    and rest: "tags_dict jl ts (dict_set acc (tag_name t) v) = Inr d"
    by (auto split: sum.splits)
  show ?case
    using Cons.IH [OF rest] v
    by (auto simp: map_of_dict_set find_snoc split: option.splits)
qed

lemma get_cases:
  assumes "snd (get c frj name version rid shared log) = log @ [r]"
  shows "fst (get c frj name version rid shared log) =
    (case backend_reply c log r of
       Inl e \<Rightarrow> if not_found e then Inr None else Inl e
     | Inr j \<Rightarrow>
        (case frj j of
           Inl e \<Rightarrow> if not_found e then Inr None else Inl e
         | Inr (Many ms) \<Rightarrow>
             Inl (AttributeError ''list object has no attribute shared_registry_project_name'')
         | Inr (One mm) \<Rightarrow> Inr (Some (mm\<lparr>shared_registry_project_name := shared\<rparr>))))"
  using assms
  by (auto simp: get_def get_body_def send_request_def catch_not_found_def Let_def not_found_def
      split: sum.splits decoded.splits prod.splits if_splits)

lemma get_tags_cases:
  assumes "snd (get_tags c tfrj jl m log) = log @ [r]"
  shows "fst (get_tags c tfrj jl m log) =
    (case backend_reply c log r of
       Inl e \<Rightarrow> if not_found e then Inr [] else Inl e
     | Inr j \<Rightarrow>
        (case tfrj j of
           Inl e \<Rightarrow> if not_found e then Inr [] else Inl e
         | Inr ts \<Rightarrow>
            (case tags_dict jl ts [] of
               Inl e \<Rightarrow> if not_found e then Inr [] else Inl e
             | Inr d \<Rightarrow> Inr d)))"
  using assms
  by (auto simp: get_tags_def get_tags_body_def send_request_def catch_not_found_def Let_def
      split: sum.splits prod.splits if_splits)

text \<open>
  C3.  Every call of \<open>get_models\<close> sends exactly one GET request.  When \<open>metric\<close> and
  \<open>direction\<close> are both given, its query parameters hold \<open>limit\<close> with the value \<open>1\<close>
  and \<open>sort_by\<close> with the metric, a colon and \<open>desc\<close> when the lower-cased direction is
  \<open>max\<close>, \<open>asc\<close> when it is \<open>min\<close>.  When either is \<open>None\<close>, the query parameters hold
  neither \<open>sort_by\<close> nor \<open>limit\<close>.
\<close>

theorem get_models_sort_and_limit:
  fixes c :: "'o client"
  shows "\<exists>r qp. snd (get_models c frj name rid shared metric direction log) = log @ [r]
    \<and> req_method r = ''GET'' \<and> req_query_params r = Some qp
    \<and> (case (metric, direction) of
          (Some m, Some d) \<Rightarrow>
            map_of qp ''limit'' = Some (PStr ''1'')
            \<and> (lower d = ''max'' \<longrightarrow> map_of qp ''sort_by'' = Some (PStr (m @ '':desc'')))
            \<and> (lower d = ''min'' \<longrightarrow> map_of qp ''sort_by'' = Some (PStr (m @ '':asc'')))
        | _ \<Rightarrow> map_of qp ''sort_by'' = None \<and> map_of qp ''limit'' = None)"
  by (auto simp: get_models_def send_request_def Let_def map_of_dict_set
      split: sum.splits decoded.splits option.splits prod.splits)

theorem get_models_sort_and_limit_witness:
  "lower ''MAX'' = ''max'' \<and>
   map req_query_params
     (snd (get_models (demo_client (Inr PNone)) decode_many ''churn'' (PInt 119) PNone
        (Some ''accuracy'') (Some ''MAX'') [])) =
   [Some [(''expand'', PStr ''trainingdatasets''), (''filter_by'', PList [PStr ''name_eq:churn'']),
          (''sort_by'', PStr ''accuracy:desc''), (''limit'', PStr ''1'')]]"
  using get_models_sort_and_limit [of "demo_client (Inr PNone)" decode_many "''churn''" "PInt 119"
      PNone "Some ''accuracy''" "Some ''MAX''" "[]"]
  by (simp add: get_models_def send_request_def demo_client_def decode_many_def
      lower_def lower_char_def)


text \<open>
  C5, as amended.  \<open>get\<close> returns \<open>None\<close> exactly when the backend answers the request
  with a not-found error (the decoder of the answer raising no backend error), and
  raises any other backend error as it is.  \<open>get_tags\<close> returns the empty dict when the
  backend reports not-found and raises any other backend error; on an answer whose
  tags all decode it returns the dict that maps each tag name to the decoded value of
  the last tag of that name, which is empty when the answer holds no tag.  Neither
  operation raises a not-found error.
\<close>

theorem read_not_found_sentinels:
  assumes sent: "snd (get c frj name version rid shared log) = log @ [r]"
    and sent': "snd (get_tags c tfrj jl m log) = log @ [r']"
    and dec: "\<forall>j e. frj j = Inl e \<longrightarrow> \<not> not_found e"
  shows "((fst (get c frj name version rid shared log) = Inr None)
            = (\<exists>e. backend_reply c log r = Inl e \<and> not_found e))
    \<and> (\<forall>e. backend_reply c log r = Inl e \<and> \<not> not_found e \<longrightarrow>
           fst (get c frj name version rid shared log) = Inl e)
    \<and> (\<forall>e. fst (get c frj name version rid shared log) = Inl e \<longrightarrow> \<not> not_found e)
    \<and> (\<forall>e. backend_reply c log r' = Inl e \<longrightarrow>
           fst (get_tags c tfrj jl m log) = (if not_found e then Inr [] else Inl e))
    \<and> (\<forall>j ts d. backend_reply c log r' = Inr j \<and> tfrj j = Inr ts \<and> tags_dict jl ts [] = Inr d \<longrightarrow>
           fst (get_tags c tfrj jl m log) = Inr d
           \<and> (\<forall>k. map_of d k =
                 (case find (\<lambda>t. tag_name t = k) (rev ts) of
                    Some t \<Rightarrow> (case jl (tag_value t) of Inr v \<Rightarrow> Some v | Inl e \<Rightarrow> None)
                  | None \<Rightarrow> None)))
    \<and> (\<forall>e. fst (get_tags c tfrj jl m log) = Inl e \<longrightarrow> \<not> not_found e)"
proof (intro conjI allI impI)
  show "(fst (get c frj name version rid shared log) = Inr None)
            = (\<exists>e. backend_reply c log r = Inl e \<and> not_found e)"
    using dec by (auto simp: get_cases [OF sent] split: sum.splits decoded.splits if_splits)
next
  fix e assume "backend_reply c log r = Inl e \<and> \<not> not_found e"
  then show "fst (get c frj name version rid shared log) = Inl e"
    by (simp add: get_cases [OF sent])
next
  fix e assume "fst (get c frj name version rid shared log) = Inl e"
  then show "\<not> not_found e"
    unfolding get_def by (rule catch_not_found_never_not_found)
next
  fix e assume "backend_reply c log r' = Inl e"
  then show "fst (get_tags c tfrj jl m log) = (if not_found e then Inr [] else Inl e)"
    by (simp add: get_tags_cases [OF sent'])
next
  fix j ts d
  assume a: "backend_reply c log r' = Inr j \<and> tfrj j = Inr ts \<and> tags_dict jl ts [] = Inr d"
  then show "fst (get_tags c tfrj jl m log) = Inr d"
    by (simp add: get_tags_cases [OF sent'])
  fix k
  from a have "tags_dict jl ts [] = Inr d" by simp
  from tags_dict_lookup [OF this, of k]
  show "map_of d k =
          (case find (\<lambda>t. tag_name t = k) (rev ts) of
             Some t \<Rightarrow> (case jl (tag_value t) of Inr v \<Rightarrow> Some v | Inl e \<Rightarrow> None)
           | None \<Rightarrow> None)"
    by (simp split: option.splits)
next
  fix e assume "fst (get_tags c tfrj jl m log) = Inl e"
  then show "\<not> not_found e"
    unfolding get_tags_def by (rule catch_not_found_never_not_found)
qed

theorem read_not_found_sentinels_witness:
  "fst (get (demo_client (Inl (RestAPIError 404 ''Model not found''))) decode_one ''churn'' 2
          (PInt 119) PNone []) = Inr None
   \<and> fst (get_tags (demo_client (Inl (RestAPIError 404 ''Model not found''))) decode_no_tags
          loads_int demo_model []) = Inr []
   \<and> fst (get (demo_client (Inl (RestAPIError 500 ''Internal error''))) decode_one ''churn'' 2
          (PInt 119) PNone []) = Inl (RestAPIError 500 ''Internal error'')"
proof -
  let ?c = "demo_client (Inl (RestAPIError 404 ''Model not found''))"
  let ?c' = "demo_client (Inl (RestAPIError 500 ''Internal error''))"
  let ?r = "\<lparr>req_method = ''GET'',
      req_path_params = [PStr ''project'', PInt 119, PStr ''modelregistries'', PInt 119,
        PStr ''models'', PStr ''churn_2''],
      req_query_params = Some [(''expand'', PStr ''trainingdatasets'')],
      req_headers = None, req_data = None\<rparr> :: unit request"
  let ?r' = "\<lparr>req_method = ''GET'',
      req_path_params = [PStr ''project'', PInt 119, PStr ''modelregistries'', PStr ''119'',
        PStr ''models'', PInt 7, PStr ''tags''],
      req_query_params = None, req_headers = None, req_data = None\<rparr> :: unit request"
  have sent: "snd (get ?c decode_one ''churn'' 2 (PInt 119) PNone []) = [] @ [?r]"
    by (simp add: get_def get_body_def send_request_def catch_not_found_def demo_client_def
        not_found_def str_int_def str_nat.simps)
  have sent2: "snd (get ?c' decode_one ''churn'' 2 (PInt 119) PNone []) = [] @ [?r]"
    by (simp add: get_def get_body_def send_request_def catch_not_found_def demo_client_def
        not_found_def str_int_def str_nat.simps)
  have sent': "snd (get_tags ?c decode_no_tags loads_int demo_model []) = [] @ [?r']"
    by (simp add: get_tags_def get_tags_body_def send_request_def catch_not_found_def
        demo_client_def demo_model_def not_found_def str_int_def str_nat.simps)
  have sent2': "snd (get_tags ?c' decode_no_tags loads_int demo_model []) = [] @ [?r']"
    by (simp add: get_tags_def get_tags_body_def send_request_def catch_not_found_def
        demo_client_def demo_model_def not_found_def str_int_def str_nat.simps)
  have dec: "\<forall>j e. decode_one j = Inl e \<longrightarrow> \<not> not_found e"
    by (simp add: decode_one_def)
  from read_not_found_sentinels [OF sent sent' dec] read_not_found_sentinels [OF sent2 sent2' dec]
  show ?thesis
    by (simp add: demo_client_def not_found_def)
qed

text \<open>
  C5 as stated fails for \<open>get_tags\<close>: on a successful answer with no tags it returns the
  empty dict although the backend did not report not-found.
\<close>

theorem get_tags_empty_without_not_found:
  "fst (get_tags (demo_client (Inr (PDict [(''count'', PInt 0)]))) decode_no_tags loads_int
          demo_model []) = Inr []
   \<and> backend_reply (demo_client (Inr (PDict [(''count'', PInt 0)]))) []
        (last (snd (get_tags (demo_client (Inr (PDict [(''count'', PInt 0)]))) decode_no_tags
           loads_int demo_model [])))
      = Inr (PDict [(''count'', PInt 0)])"
  by (simp add: get_tags_def get_tags_body_def send_request_def catch_not_found_def
      demo_client_def decode_no_tags_def)


text \<open>
  C7.  \<open>get_feature_view_provenance\<close> sends one GET request with \<open>upstreamLvls\<close> 2 and
  \<open>downstreamLvls\<close> 0, \<open>get_training_dataset_provenance\<close> one with \<open>upstreamLvls\<close> 1 and
  \<open>downstreamLvls\<close> 0.  On a decoded answer each returns \<open>None\<close> when the filtered
  links are empty and the links otherwise; a returned \<open>Links\<close> object is never
  empty.
\<close>

theorem provenance_none_when_empty:
  fixes c :: "'o client" and is_empty :: "'l \<Rightarrow> bool"
    and lfrj :: "'o pyval \<Rightarrow> links_direction \<Rightarrow> links_type \<Rightarrow> error + 'l"
    and m :: "'o model" and log :: "'o request list"
  defines "fv \<equiv> get_feature_view_provenance c lfrj is_empty m log"
    and "td \<equiv> get_training_dataset_provenance c lfrj is_empty m log"
    and "fv_request \<equiv> \<lparr>req_method = ''GET'', req_path_params = provenance_path_params c m,
            req_query_params = Some [(''expand'', PStr ''provenance_artifacts''),
              (''upstreamLvls'', PInt 2), (''downstreamLvls'', PInt 0)],
            req_headers = None, req_data = None\<rparr>"
    and "td_request \<equiv> \<lparr>req_method = ''GET'', req_path_params = provenance_path_params c m,
            req_query_params = Some [(''expand'', PStr ''provenance_artifacts''),
              (''upstreamLvls'', PInt 1), (''downstreamLvls'', PInt 0)],
            req_headers = None, req_data = None\<rparr>"
  shows "snd fv = log @ [fv_request] \<and> snd td = log @ [td_request]
    \<and> (\<forall>j links. backend_reply c log fv_request = Inr j \<and> lfrj j UPSTREAM FEATURE_VIEW = Inr links \<longrightarrow>
          fst fv = Inr (if is_empty links then None else Some links))
    \<and> (\<forall>j links. backend_reply c log td_request = Inr j \<and> lfrj j UPSTREAM TRAINING_DATASET = Inr links \<longrightarrow>
          fst td = Inr (if is_empty links then None else Some links))
    \<and> (\<forall>links. fst fv = Inr (Some links) \<or> fst td = Inr (Some links) \<longrightarrow> \<not> is_empty links)"
  unfolding fv_def td_def fv_request_def td_request_def
  by (auto simp: get_feature_view_provenance_def get_training_dataset_provenance_def
      send_request_def Let_def split: sum.splits if_splits)


theorem provenance_none_when_empty_witness:
  "fst (get_feature_view_provenance (demo_client (Inr PNone)) decode_links no_links demo_model [])
     = Inr None
   \<and> fst (get_training_dataset_provenance (demo_client (Inr PNone)) decode_links no_links
        demo_model []) = Inr (Some [''td_1''])"
  using provenance_none_when_empty [where c = "demo_client (Inr PNone)" and log = "[]"
      and m = demo_model and lfrj = decode_links and is_empty = no_links]
  by (simp add: demo_client_def decode_links_def no_links_def)

subsection \<open>ExpectationSuite\<close>

text \<open>The two concrete suites are what the constructor builds.\<close>

lemma demo_unattached_constructed:
  "ExpectationSuite_init demo_env (PStr ''sales'')
     (PList [PDict [(''expectation_type'', PStr ''expect_column_min_to_be_between'')]])
     (PDict []) PNone (PBool True) (PStr ''always'') PNone PNone PNone [] []
   = (Inr demo_unattached, [])"
  by (simp add: ExpectationSuite_init_def demo_unattached_def demo_env_def
      expectations_setter_def convert_expectation_def demo_GeExpectation_init_def
      meta_setter_def upper_def upper_char_def)

lemma demo_attached_constructed:
  "ExpectationSuite_init demo_env (PStr ''sales'')
     (PList [PDict [(''expectation_type'', PStr ''expect_column_min_to_be_between'')]])
     (PDict []) (PInt 9) (PBool True) (PStr ''always'') (PInt 67) (PInt 12) PNone [] []
   = (Inr demo_attached, [])"
  by (simp add: ExpectationSuite_init_def demo_unattached_def demo_attached_def demo_env_def
      expectations_setter_def convert_expectation_def demo_GeExpectation_init_def
      meta_setter_def upper_def upper_char_def)

text \<open>
  C1.  On a suite whose id is unset, each of \<open>get_expectation\<close>, \<open>add_expectation\<close>,
  \<open>replace_expectation\<close> and \<open>remove_expectation\<close> raises \<open>FeatureStoreException\<close> with
  the message that asks to attach the suite first, calls no engine (the log of calls is
  what it was, whatever the engines would answer) and leaves the suite as it was.
\<close>

theorem single_expectation_api_requires_id:
  assumes "es_id self = PNone"
  shows "get_expectation env self expectation_id ge_type log =
           (Inl (FeatureStoreException
                   (initialise_expectation_suite_for_single_expectation_api_message env)), self, log)
    \<and> add_expectation env self expectation ge_type log =
           (Inl (FeatureStoreException
                   (initialise_expectation_suite_for_single_expectation_api_message env)), self, log)
    \<and> replace_expectation env self expectation ge_type log =
           (Inl (FeatureStoreException
                   (initialise_expectation_suite_for_single_expectation_api_message env)), self, log)
    \<and> remove_expectation env self expectation_id log =
           (Inl (FeatureStoreException
                   (initialise_expectation_suite_for_single_expectation_api_message env)), self, log)"
  using assms
  by (simp add: get_expectation_def add_expectation_def replace_expectation_def
      remove_expectation_def)


theorem single_expectation_api_requires_id_witness:
  "es_id demo_unattached = PNone
   \<and> get_expectation demo_env demo_unattached (PInt 123) True [] =
       (Inl (FeatureStoreException ''Attach the expectation suite to a feature group first''),
        demo_unattached, [])
   \<and> remove_expectation demo_env demo_unattached (PInt 123) [] =
       (Inl (FeatureStoreException ''Attach the expectation suite to a feature group first''),
        demo_unattached, [])"
proof -
  have unset: "es_id demo_unattached = PNone"
    by (simp add: demo_unattached_def)
  from single_expectation_api_requires_id [OF unset, of demo_env "PInt 123" True "[]"] unset
  show ?thesis
    by (simp add: demo_env_def)
qed

lemma convert_all_elementwise:
  "convert_all env xs = Inr ys \<Longrightarrow>
     length ys = length xs \<and> (\<forall>i<length xs. convert_expectation env (xs ! i) = Inr (ys ! i))"
proof (induction xs arbitrary: ys)
  case Nil
  then show ?case by simp
next
  case (Cons x xs)
  from Cons.prems obtain y ys' where y: "convert_expectation env x = Inr y"
    and ys': "convert_all env xs = Inr ys'" and ys: "ys = y # ys'"
    by (auto split: sum.splits)
  from Cons.IH [OF ys'] y ys show ?case
    by (auto simp: nth_Cons split: nat.splits)
qed

lemma convert_all_first_error:
  "convert_all env xs = Inl e \<Longrightarrow> \<exists>x \<in> set xs. convert_expectation env x = Inl e"
  by (induction xs) (auto split: sum.splits)

text \<open>
  C9.  Assigning \<open>None\<close> to \<open>expectations\<close> stores the empty list.  Assigning a value
  that is neither \<open>None\<close> nor a list raises a \<open>TypeError\<close> whose message holds what
  \<open>type\<close> prints for the value.  Assigning a list stores the list of its elements
  converted, in order, by \<open>_convert_expectation\<close>: a \<open>GeExpectation\<close> is kept, a dict
  and (with \<open>great_expectations\<close> installed) an \<open>ExpectationConfiguration\<close> go through
  the \<open>GeExpectation\<close> constructor, and any other element raises a \<open>TypeError\<close> that
  names its type, in which case nothing is stored.
\<close>

theorem expectations_setter_none_list_or_type_error:
  "expectations_setter env self PNone = Inr (self\<lparr>es_expectations := []\<rparr>)
   \<and> (\<forall>x. x \<noteq> PNone \<and> (\<forall>xs. x \<noteq> PList xs) \<longrightarrow>
          expectations_setter env self x =
            Inl (TypeError (''Type '' @ type_str x
                   @ '' not supported. Expectations must be None or a list.'')))
   \<and> (\<forall>xs ys. convert_all env xs = Inr ys \<longrightarrow>
          expectations_setter env self (PList xs) = Inr (self\<lparr>es_expectations := ys\<rparr>)
          \<and> length ys = length xs
          \<and> (\<forall>i<length xs. convert_expectation env (xs ! i) = Inr (ys ! i)))
   \<and> (\<forall>xs e. convert_all env xs = Inl e \<longrightarrow>
          expectations_setter env self (PList xs) = Inl e
          \<and> (\<exists>x \<in> set xs. convert_expectation env x = Inl e))
   \<and> (\<forall>e. convert_expectation env (PObj (GeExpectation e)) = Inr e)
   \<and> (\<forall>d. convert_expectation env (PDict d) = GeExpectation_init env d)
   \<and> (\<forall>x. (\<forall>c. x \<noteq> PObj (ExpectationConfiguration c) \<or> \<not> HAS_GREAT_EXPECTATIONS env)
            \<and> (\<forall>e. x \<noteq> PObj (GeExpectation e)) \<and> (\<forall>d. x \<noteq> PDict d) \<longrightarrow>
          convert_expectation env x =
            Inl (TypeError (''Expectation of type '' @ type_str x @ '' is not supported.'')))"
proof (intro conjI allI impI)
  show "expectations_setter env self PNone = Inr (self\<lparr>es_expectations := []\<rparr>)"
    by (simp add: expectations_setter_def)
next
  fix x :: "('a, 'b) val"
  assume "x \<noteq> PNone \<and> (\<forall>xs. x \<noteq> PList xs)"
  then show "expectations_setter env self x =
      Inl (TypeError (''Type '' @ type_str x @ '' not supported. Expectations must be None or a list.''))"
    by (cases x) (simp_all add: expectations_setter_def)
next
  fix xs ys assume c: "convert_all env xs = Inr ys"
  then show "expectations_setter env self (PList xs) = Inr (self\<lparr>es_expectations := ys\<rparr>)"
    by (simp add: expectations_setter_def)
  from convert_all_elementwise [OF c] show "length ys = length xs" by simp
  fix i assume "i < length xs"
  with convert_all_elementwise [OF c] show "convert_expectation env (xs ! i) = Inr (ys ! i)"
    by simp
next
  fix xs e assume c: "convert_all env xs = Inl e"
  then show "expectations_setter env self (PList xs) = Inl e"
    by (simp add: expectations_setter_def)
  from convert_all_first_error [OF c] show "\<exists>x \<in> set xs. convert_expectation env x = Inl e" .
next
  fix e show "convert_expectation env (PObj (GeExpectation e)) = Inr e"
    by (simp add: convert_expectation_def)
next
  fix d show "convert_expectation env (PDict d) = GeExpectation_init env d"
    by (simp add: convert_expectation_def)
next
  fix x :: "('a, 'b) val"
  assume "(\<forall>c. x \<noteq> PObj (ExpectationConfiguration c) \<or> \<not> HAS_GREAT_EXPECTATIONS env)
            \<and> (\<forall>e. x \<noteq> PObj (GeExpectation e)) \<and> (\<forall>d. x \<noteq> PDict d)"
  then show "convert_expectation env x =
      Inl (TypeError (''Expectation of type '' @ type_str x @ '' is not supported.''))"
    by (auto simp: convert_expectation_def split: pyval.splits obj.splits)
qed

theorem expectations_setter_none_list_or_type_error_witness:
  "expectations_setter demo_env demo_unattached PNone = Inr (demo_unattached\<lparr>es_expectations := []\<rparr>)
   \<and> expectations_setter demo_env demo_unattached (PInt 3) =
       Inl (TypeError (''Type <class '' @ [CHR 0x27] @ ''int'' @ [CHR 0x27]
              @ ''> not supported. Expectations must be None or a list.''))
   \<and> expectations_setter demo_env demo_unattached
       (PList [PObj (GeExpectation ''a''), PDict [(''expectation_type'', PStr ''b'')],
               PObj (ExpectationConfiguration ''c'')])
     = Inr (demo_unattached\<lparr>es_expectations := [''a'', ''b'', ''c'']\<rparr>)
   \<and> expectations_setter demo_env demo_unattached (PList [PObj (GeExpectation ''a''), PInt 3]) =
       Inl (TypeError (''Expectation of type <class '' @ [CHR 0x27] @ ''int'' @ [CHR 0x27]
              @ ''> is not supported.''))"
proof -
  have ok: "convert_all demo_env
      [PObj (GeExpectation ''a''), PDict [(''expectation_type'', PStr ''b'')],
       PObj (ExpectationConfiguration ''c'')] = Inr [''a'', ''b'', ''c'']"
    by (simp add: convert_expectation_def demo_env_def demo_GeExpectation_init_def
        demo_to_json_dict_def)
  have bad: "convert_all demo_env [PObj (GeExpectation ''a''), PInt 3] =
      Inl (TypeError (''Expectation of type <class '' @ [CHR 0x27] @ ''int'' @ [CHR 0x27]
              @ ''> is not supported.''))"
    by (simp add: convert_expectation_def demo_env_def type_str_def)
  have other: "PInt 3 \<noteq> (PNone :: (string, string) val)
      \<and> (\<forall>xs. PInt 3 \<noteq> (PList xs :: (string, string) val))"
    by simp
  from expectations_setter_none_list_or_type_error [of demo_env demo_unattached] ok bad other
  show ?thesis
    by (simp add: type_str_def)
qed


lemma update_metadata_keeps_suite:
  "fst (snd (update_metadata_from_fields env self log)) = self"
  by (simp add: update_metadata_from_fields_def split: attr.splits option.splits sum.splits prod.splits)

lemma update_metadata_wired:
  assumes "es_expectation_suite_engine self = Assigned (Some engine)"
    and "to_dict env self = Inr d"
  shows "snd (snd (update_metadata_from_fields env self log)) =
           log @ [Suite_engine_update_metadata_from_fields engine (humps_decamelize env d)]"
  using assms
  by (simp add: update_metadata_from_fields_def engine_call_def split: sum.splits)

text \<open>
  C10.  The \<open>meta\<close> setter stores a dict as it is and, for a str, stores what
  \<open>json.loads\<close> makes of it.  A str that \<open>json.loads\<close> rejects raises its error, and
  any value that is neither a dict nor a str raises
  \<open>ValueError\<close>, not \<open>TypeError\<close>; in both cases the suite, its \<open>meta\<close> included, and the
  log of engine calls are what they were.  On a suite without id the setter returns
  after storing.
\<close>

theorem meta_setter_dict_json_or_value_error:
  "(\<forall>d. fst (snd (meta_setter env self (PDict d) log)) = self\<lparr>es_meta := PDict d\<rparr>)
   \<and> (\<forall>s v. json_loads env s = Inr v \<longrightarrow>
          fst (snd (meta_setter env self (PStr s) log)) = self\<lparr>es_meta := v\<rparr>)
   \<and> (\<forall>s e. json_loads env s = Inl e \<longrightarrow> meta_setter env self (PStr s) log = (Inl e, self, log))
   \<and> (\<forall>x. (\<forall>d. x \<noteq> PDict d) \<and> (\<forall>s. x \<noteq> PStr s) \<longrightarrow>
          meta_setter env self x log =
            (Inl (ValueError ''Meta field must be stringified json or dict.''), self, log))
   \<and> (\<forall>d. \<not> truthy (es_id self) \<longrightarrow>
          meta_setter env self (PDict d) log = (Inr (), self\<lparr>es_meta := PDict d\<rparr>, log))"
proof (intro conjI allI impI)
  fix d show "fst (snd (meta_setter env self (PDict d) log)) = self\<lparr>es_meta := PDict d\<rparr>"
    by (simp add: meta_setter_def update_metadata_keeps_suite)
next
  fix s v assume "json_loads env s = Inr v"
  then show "fst (snd (meta_setter env self (PStr s) log)) = self\<lparr>es_meta := v\<rparr>"
    by (simp add: meta_setter_def update_metadata_keeps_suite)
next
  fix s e assume "json_loads env s = Inl e"
  then show "meta_setter env self (PStr s) log = (Inl e, self, log)"
    by (simp add: meta_setter_def)
next
  fix x :: "('a, 'b) val"
  assume "(\<forall>d. x \<noteq> PDict d) \<and> (\<forall>s. x \<noteq> PStr s)"
  then show "meta_setter env self x log =
      (Inl (ValueError ''Meta field must be stringified json or dict.''), self, log)"
    by (cases x) (simp_all add: meta_setter_def)
next
  fix d assume "\<not> truthy (es_id self)"
  then show "meta_setter env self (PDict d) log = (Inr (), self\<lparr>es_meta := PDict d\<rparr>, log)"
    by (simp add: meta_setter_def)
qed

theorem meta_setter_dict_json_or_value_error_witness:
  "meta_setter demo_env demo_unattached (PDict [(''owner'', PStr ''ops'')]) [] =
     (Inr (), demo_unattached\<lparr>es_meta := PDict [(''owner'', PStr ''ops'')]\<rparr>, [])
   \<and> fst (snd (meta_setter demo_env demo_unattached (PStr ''{}'') [])) =
       demo_unattached\<lparr>es_meta := PDict []\<rparr>
   \<and> meta_setter demo_env demo_unattached (PStr ''{'') [] =
       (Inl (ValueError ''JSONDecodeError''), demo_unattached, [])
   \<and> meta_setter demo_env demo_unattached (PInt 3) [] =
       (Inl (ValueError ''Meta field must be stringified json or dict.''), demo_unattached, [])"
proof -
  have falsy: "\<not> truthy (es_id demo_unattached)"
    by (simp add: demo_unattached_def)
  have ok: "json_loads demo_env ''{}'' = Inr (PDict [])"
    by (simp add: demo_env_def demo_json_loads_def)
  have bad: "json_loads demo_env ''{'' = Inl (ValueError ''JSONDecodeError'')"
    by (simp add: demo_env_def demo_json_loads_def)
  have other: "(\<forall>d. PInt 3 \<noteq> (PDict d :: (string, string) val))
      \<and> (\<forall>s. PInt 3 \<noteq> (PStr s :: (string, string) val))"
    by simp
  from meta_setter_dict_json_or_value_error [of demo_env demo_unattached "[]"] falsy ok bad other
  show ?thesis by blast
qed

lemma init_wires_engine:
  assumes "ExpectationSuite_init env n xs m i rv pol fs fg href kw log = (Inr self, log')"
    and "truthy (es_id self)"
  shows "es_expectation_suite_engine self =
    Assigned (Some \<lparr>se_feature_store_id = es_feature_store_id self,
                    se_feature_group_id = es_feature_group_id self\<rparr>)"
  using assms
  by (cases pol)
    (auto simp: ExpectationSuite_init_def Let_def split: sum.splits prod.splits if_splits)

text \<open>
  C6, as amended.  Take an attached suite: its id is set and not zero and its suite
  engine is wired, as in every suite that the constructor builds with such an id.  If
  \<open>to_dict\<close> can serialise the suite (\<open>json.dumps\<close> accepts its \<open>meta\<close>), assigning
  \<open>strict\<close> to \<open>validation_ingestion_policy\<close> stores \<open>STRICT\<close> and makes exactly one call
  of \<open>update_metadata_from_fields\<close>, with the decamelized \<open>to_dict\<close> of the updated suite.
  On a suite whose id is unset (or zero) the assignment stores \<open>STRICT\<close> and makes no
  call.
\<close>

theorem policy_setter_strict:
  "(\<forall>engine d.
       truthy (es_id self) \<and> es_expectation_suite_engine self = Assigned (Some engine)
       \<and> to_dict env (self\<lparr>es_validation_ingestion_policy := ''STRICT''\<rparr>) = Inr d \<longrightarrow>
       fst (snd (validation_ingestion_policy_setter env self (PStr ''strict'') log)) =
         self\<lparr>es_validation_ingestion_policy := ''STRICT''\<rparr>
       \<and> snd (snd (validation_ingestion_policy_setter env self (PStr ''strict'') log)) =
         log @ [Suite_engine_update_metadata_from_fields engine (humps_decamelize env d)])
   \<and> (\<forall>built log' d.
       ExpectationSuite_init env n xs m i rv pol fs fg href kw hist = (Inr built, log')
       \<and> truthy (es_id built)
       \<and> to_dict env (built\<lparr>es_validation_ingestion_policy := ''STRICT''\<rparr>) = Inr d \<longrightarrow>
       fst (snd (validation_ingestion_policy_setter env built (PStr ''strict'') log)) =
         built\<lparr>es_validation_ingestion_policy := ''STRICT''\<rparr>
       \<and> snd (snd (validation_ingestion_policy_setter env built (PStr ''strict'') log)) =
         log @ [Suite_engine_update_metadata_from_fields
                  \<lparr>se_feature_store_id = es_feature_store_id built,
                   se_feature_group_id = es_feature_group_id built\<rparr>
                  (humps_decamelize env d)])
   \<and> (\<not> truthy (es_id self) \<longrightarrow>
       validation_ingestion_policy_setter env self (PStr ''strict'') log =
         (Inr (), self\<lparr>es_validation_ingestion_policy := ''STRICT''\<rparr>, log))"
proof -
  have up: "upper ''strict'' = ''STRICT''"
    by (simp add: upper_def upper_char_def)
  have wired: "\<And>s engine d.
       truthy (es_id s) \<Longrightarrow> es_expectation_suite_engine s = Assigned (Some engine) \<Longrightarrow>
       to_dict env (s\<lparr>es_validation_ingestion_policy := ''STRICT''\<rparr>) = Inr d \<Longrightarrow>
       fst (snd (validation_ingestion_policy_setter env s (PStr ''strict'') log)) =
         s\<lparr>es_validation_ingestion_policy := ''STRICT''\<rparr>
       \<and> snd (snd (validation_ingestion_policy_setter env s (PStr ''strict'') log)) =
         log @ [Suite_engine_update_metadata_from_fields engine (humps_decamelize env d)]"
    by (simp add: validation_ingestion_policy_setter_def up Let_def update_metadata_keeps_suite
        update_metadata_wired)
  have unset: "\<not> truthy (es_id self) \<longrightarrow>
       validation_ingestion_policy_setter env self (PStr ''strict'') log =
         (Inr (), self\<lparr>es_validation_ingestion_policy := ''STRICT''\<rparr>, log)"
    by (simp add: validation_ingestion_policy_setter_def up Let_def)
  show ?thesis
  proof (intro conjI allI impI)
    fix engine d
    assume "truthy (es_id self) \<and> es_expectation_suite_engine self = Assigned (Some engine)
       \<and> to_dict env (self\<lparr>es_validation_ingestion_policy := ''STRICT''\<rparr>) = Inr d"
    then have "fst (snd (validation_ingestion_policy_setter env self (PStr ''strict'') log)) =
         self\<lparr>es_validation_ingestion_policy := ''STRICT''\<rparr>
       \<and> snd (snd (validation_ingestion_policy_setter env self (PStr ''strict'') log)) =
         log @ [Suite_engine_update_metadata_from_fields engine (humps_decamelize env d)]"
      using wired [of self engine d] by blast
    then show "fst (snd (validation_ingestion_policy_setter env self (PStr ''strict'') log)) =
         self\<lparr>es_validation_ingestion_policy := ''STRICT''\<rparr>"
      and "snd (snd (validation_ingestion_policy_setter env self (PStr ''strict'') log)) =
         log @ [Suite_engine_update_metadata_from_fields engine (humps_decamelize env d)]"
      by blast+
  next
    fix built log' d
    assume a: "ExpectationSuite_init env n xs m i rv pol fs fg href kw hist = (Inr built, log')
       \<and> truthy (es_id built)
       \<and> to_dict env (built\<lparr>es_validation_ingestion_policy := ''STRICT''\<rparr>) = Inr d"
    then have b: "ExpectationSuite_init env n xs m i rv pol fs fg href kw hist = (Inr built, log')"
      and t: "truthy (es_id built)"
      and d: "to_dict env (built\<lparr>es_validation_ingestion_policy := ''STRICT''\<rparr>) = Inr d"
      by blast+
    from wired [OF t init_wires_engine [OF b t] d]
    show "fst (snd (validation_ingestion_policy_setter env built (PStr ''strict'') log)) =
         built\<lparr>es_validation_ingestion_policy := ''STRICT''\<rparr>"
      and "snd (snd (validation_ingestion_policy_setter env built (PStr ''strict'') log)) =
         log @ [Suite_engine_update_metadata_from_fields
                  \<lparr>se_feature_store_id = es_feature_store_id built,
                   se_feature_group_id = es_feature_group_id built\<rparr>
                  (humps_decamelize env d)]"
      by blast+
  next
    assume "\<not> truthy (es_id self)"
    with unset show "validation_ingestion_policy_setter env self (PStr ''strict'') log =
         (Inr (), self\<lparr>es_validation_ingestion_policy := ''STRICT''\<rparr>, log)"
      by blast
  qed
qed

theorem policy_setter_strict_witness:
  "snd (snd (validation_ingestion_policy_setter demo_env demo_attached (PStr ''strict'') [])) =
     [Suite_engine_update_metadata_from_fields
        \<lparr>se_feature_store_id = PInt 67, se_feature_group_id = PInt 12\<rparr>
        [(''id'', PInt 9), (''feature_store_id'', PInt 67), (''feature_group_id'', PInt 12),
         (''expectation_suite_name'', PStr ''sales''),
         (''expectations'', PList [PObj (GeExpectation ''expect_column_min_to_be_between'')]),
         (''meta'', PStr ''{}''), (''ge_cloud_id'', PNone), (''data_asset_type'', PNone),
         (''run_validation'', PBool True), (''validation_ingestion_policy'', PStr ''STRICT'')]]
   \<and> es_validation_ingestion_policy
       (fst (snd (validation_ingestion_policy_setter demo_env demo_attached (PStr ''strict'') [])))
     = ''STRICT''
   \<and> validation_ingestion_policy_setter demo_env demo_unattached (PStr ''strict'') [] =
       (Inr (), demo_unattached\<lparr>es_validation_ingestion_policy := ''STRICT''\<rparr>, [])"
proof -
  let ?d = "[(''id'', PInt 9), (''featureStoreId'', PInt 67), (''featureGroupId'', PInt 12),
         (''expectationSuiteName'', PStr ''sales''),
         (''expectations'', PList [PObj (GeExpectation ''expect_column_min_to_be_between'')]),
         (''meta'', PStr ''{}''), (''geCloudId'', PNone), (''dataAssetType'', PNone),
         (''runValidation'', PBool True), (''validationIngestionPolicy'', PStr ''STRICT'')]
         :: (string, string) kwargs"
  have a: "ExpectationSuite_init demo_env (PStr ''sales'')
       (PList [PDict [(''expectation_type'', PStr ''expect_column_min_to_be_between'')]])
       (PDict []) (PInt 9) (PBool True) (PStr ''always'') (PInt 67) (PInt 12) PNone [] []
       = (Inr demo_attached, [])
     \<and> truthy (es_id demo_attached)
     \<and> to_dict demo_env (demo_attached\<lparr>es_validation_ingestion_policy := ''STRICT''\<rparr>) = Inr ?d"
    by (simp add: demo_attached_constructed)
      (simp add: demo_attached_def demo_unattached_def to_dict_def demo_env_def
        upper_def upper_char_def)
  have parents: "es_feature_store_id demo_attached = PInt 67"
    "es_feature_group_id demo_attached = PInt 12"
    by (simp_all add: demo_attached_def)
  have dec: "humps_decamelize demo_env ?d =
      [(''id'', PInt 9), (''feature_store_id'', PInt 67), (''feature_group_id'', PInt 12),
         (''expectation_suite_name'', PStr ''sales''),
         (''expectations'', PList [PObj (GeExpectation ''expect_column_min_to_be_between'')]),
         (''meta'', PStr ''{}''), (''ge_cloud_id'', PNone), (''data_asset_type'', PNone),
         (''run_validation'', PBool True), (''validation_ingestion_policy'', PStr ''STRICT'')]"
    by (simp add: humps_decamelize_def demo_env_def demo_decamelize_key_def)
  have u: "\<not> truthy (es_id demo_unattached)"
    by (simp add: demo_unattached_def)
  note th = policy_setter_strict [where env = demo_env and log = "[]" and hist = "[]"
      and n = "PStr ''sales''"
      and xs = "PList [PDict [(''expectation_type'', PStr ''expect_column_min_to_be_between'')]]"
      and m = "PDict []" and i = "PInt 9" and rv = "PBool True" and pol = "PStr ''always''"
      and fs = "PInt 67" and fg = "PInt 12" and href = PNone and kw = "[]"]
  from th [where self = demo_unattached] have built: "\<forall>built log' d.
       ExpectationSuite_init demo_env (PStr ''sales'')
         (PList [PDict [(''expectation_type'', PStr ''expect_column_min_to_be_between'')]])
         (PDict []) (PInt 9) (PBool True) (PStr ''always'') (PInt 67) (PInt 12) PNone [] []
         = (Inr built, log')
       \<and> truthy (es_id built)
       \<and> to_dict demo_env (built\<lparr>es_validation_ingestion_policy := ''STRICT''\<rparr>) = Inr d \<longrightarrow>
       fst (snd (validation_ingestion_policy_setter demo_env built (PStr ''strict'') [])) =
         built\<lparr>es_validation_ingestion_policy := ''STRICT''\<rparr>
       \<and> snd (snd (validation_ingestion_policy_setter demo_env built (PStr ''strict'') [])) =
         [] @ [Suite_engine_update_metadata_from_fields
                  \<lparr>se_feature_store_id = es_feature_store_id built,
                   se_feature_group_id = es_feature_group_id built\<rparr>
                  (humps_decamelize demo_env d)]"
    by (rule conjunct1 [OF conjunct2])
  from th [where self = demo_unattached, THEN conjunct2, THEN conjunct2] u
  have none: "validation_ingestion_policy_setter demo_env demo_unattached (PStr ''strict'') [] =
       (Inr (), demo_unattached\<lparr>es_validation_ingestion_policy := ''STRICT''\<rparr>, [])"
    by simp
  from built a have "fst (snd (validation_ingestion_policy_setter demo_env demo_attached (PStr ''strict'') [])) =
         demo_attached\<lparr>es_validation_ingestion_policy := ''STRICT''\<rparr>
       \<and> snd (snd (validation_ingestion_policy_setter demo_env demo_attached (PStr ''strict'') [])) =
         [] @ [Suite_engine_update_metadata_from_fields
                  \<lparr>se_feature_store_id = es_feature_store_id demo_attached,
                   se_feature_group_id = es_feature_group_id demo_attached\<rparr>
                  (humps_decamelize demo_env ?d)]"
    by blast
  with parents dec none show ?thesis by simp
qed

text \<open>
  C6 as stated fails on an attached suite whose \<open>meta\<close> \<open>json.dumps\<close> cannot serialise.
  The constructor builds the suite with id, parents and engines; assigning the policy
  stores \<open>STRICT\<close>, then \<open>to_dict\<close> raises the \<open>TypeError\<close> of \<open>json.dumps\<close> and no call
  is made.
\<close>

theorem policy_setter_on_unserialisable_meta:
  "ExpectationSuite_init demo_env (PStr ''sales'')
     (PList [PDict [(''expectation_type'', PStr ''expect_column_min_to_be_between'')]])
     (PDict [(''reviewers'', PObj (Instance ''set''))])
     (PInt 9) (PBool True) (PStr ''always'') (PInt 67) (PInt 12) PNone [] []
   = (Inr demo_unserialisable, [])
   \<and> es_expectation_suite_engine demo_unserialisable =
       Assigned (Some \<lparr>se_feature_store_id = PInt 67, se_feature_group_id = PInt 12\<rparr>)
   \<and> validation_ingestion_policy_setter demo_env demo_unserialisable (PStr ''strict'') [] =
       (Inl (TypeError ''Object of type set is not JSON serializable''),
        demo_unserialisable\<lparr>es_validation_ingestion_policy := ''STRICT''\<rparr>, [])"
  by (simp add: ExpectationSuite_init_def demo_unserialisable_def demo_unattached_def
      demo_attached_def demo_env_def expectations_setter_def convert_expectation_def
      demo_GeExpectation_init_def meta_setter_def upper_def upper_char_def
      validation_ingestion_policy_setter_def update_metadata_from_fields_def to_dict_def)

lemma same_identity_refl: "same_identity self self"
  by (simp add: same_identity_def)

lemma expectations_setter_identity:
  "expectations_setter env self x = Inr self' \<Longrightarrow> same_identity self self'"
  by (auto simp: expectations_setter_def same_identity_def split: pyval.splits sum.splits)

lemma meta_setter_identity:
  "same_identity self (fst (snd (meta_setter env self x log)))"
  by (cases x)
    (auto simp: meta_setter_def same_identity_def update_metadata_keeps_suite split: sum.splits)

lemma refetch_identity:
  "same_identity self (fst (snd (refetch_expectations env self engine log)))"
  by (auto simp: refetch_expectations_def same_identity_refl
      dest: expectations_setter_identity split: sum.splits prod.splits)

lemma get_expectation_identity:
  "fst (snd (get_expectation env self i g log)) = self"
  by (auto simp: get_expectation_def split: sum.splits prod.splits option.splits bool.splits)

lemma add_expectation_identity:
  "same_identity self (fst (snd (add_expectation env self x g log)))"
proof -
  have "\<And>engine log'. same_identity self (fst (snd (refetch_expectations env self engine log')))"
    by (rule refetch_identity)
  then show ?thesis
    by (auto simp: add_expectation_def same_identity_refl
        split: sum.splits prod.splits option.splits)
      (metis fst_conv snd_conv)+
qed


lemma replace_expectation_identity:
  "same_identity self (fst (snd (replace_expectation env self x g log)))"
proof -
  have "\<And>engine log'. same_identity self (fst (snd (refetch_expectations env self engine log')))"
    by (rule refetch_identity)
  then show ?thesis
    by (auto simp: replace_expectation_def same_identity_refl
        split: sum.splits prod.splits option.splits)
      (metis fst_conv snd_conv)+
qed

lemma remove_expectation_identity:
  "same_identity self (fst (snd (remove_expectation env self i log)))"
  by (auto simp: remove_expectation_def same_identity_refl refetch_identity
      split: sum.splits prod.splits option.splits)

lemma setters_identity:
  "same_identity self (fst (snd (expectation_suite_name_setter env self v log)))"
  "same_identity self (fst (snd (run_validation_setter env self v log)))"
  "same_identity self (fst (snd (validation_ingestion_policy_setter env self v log)))"
  "same_identity self (fst (snd (expectations_assign env self v log)))"
  "same_identity self (data_asset_type_setter self v)"
  "same_identity self (ge_coud_id_setter self v)"
  by (auto simp: expectation_suite_name_setter_def run_validation_setter_def
      validation_ingestion_policy_setter_def expectations_assign_def data_asset_type_setter_def
      ge_coud_id_setter_def Let_def update_metadata_keeps_suite same_identity_def
      dest: expectations_setter_identity split: pyval.splits sum.splits)

lemma init_engines_identity:
  "init_expectation_engine env self fs fg = Inr self' \<Longrightarrow> same_identity self self'"
  "init_expectation_suite_engine self fs fg = Inr self'' \<Longrightarrow> same_identity self self''"
  by (auto simp: init_expectation_engine_def init_expectation_suite_engine_def same_identity_def
      split: if_splits)

lemma init_parents_known:
  assumes "ExpectationSuite_init env n xs m i rv pol fs fg href kw log = (Inr self, log')"
  shows "truthy (es_id self) \<longrightarrow>
    es_feature_store_id self \<noteq> PNone \<and> es_feature_group_id self \<noteq> PNone"
  using assms
  by (cases pol)
    (auto simp: ExpectationSuite_init_def Let_def split: sum.splits prod.splits if_splits)


text \<open>
  C4, as amended.  A suite that the constructor has built and whose id is set and not
  zero has both \<open>feature_store_id\<close> and \<open>feature_group_id\<close> set.  Every mutation other than
  the \<open>id\<close> setter (the other setters, the single expectation API, the attaching of the
  engines) leaves the id and the two parent identifiers as they were, whether it
  returns or raises, so a suite that has its parents whenever it has an id keeps that
  through all of them.
\<close>

theorem identity_kept_by_all_but_id_setter:
  "(\<forall>self' log'.
       ExpectationSuite_init env n xs m i rv pol fs fg href kw log = (Inr self', log')
       \<and> truthy (es_id self') \<longrightarrow>
       es_feature_store_id self' \<noteq> PNone \<and> es_feature_group_id self' \<noteq> PNone)
   \<and> same_identity self (fst (snd (expectation_suite_name_setter env self v log)))
   \<and> same_identity self (fst (snd (run_validation_setter env self v log)))
   \<and> same_identity self (fst (snd (validation_ingestion_policy_setter env self v log)))
   \<and> same_identity self (fst (snd (expectations_assign env self v log)))
   \<and> same_identity self (fst (snd (meta_setter env self v log)))
   \<and> same_identity self (data_asset_type_setter self v)
   \<and> same_identity self (ge_coud_id_setter self v)
   \<and> same_identity self (fst (snd (get_expectation env self v ge_type log)))
   \<and> same_identity self (fst (snd (add_expectation env self v ge_type log)))
   \<and> same_identity self (fst (snd (replace_expectation env self v ge_type log)))
   \<and> same_identity self (fst (snd (remove_expectation env self v log)))
   \<and> (\<forall>self'. init_expectation_engine env self fs fg = Inr self' \<longrightarrow> same_identity self self')
   \<and> (\<forall>self'. init_expectation_suite_engine self fs fg = Inr self' \<longrightarrow> same_identity self self')
   \<and> (\<forall>self'. same_identity self self' \<longrightarrow>
         (truthy (es_id self) \<longrightarrow>
            es_feature_store_id self \<noteq> PNone \<and> es_feature_group_id self \<noteq> PNone) \<longrightarrow>
         (truthy (es_id self') \<longrightarrow>
            es_feature_store_id self' \<noteq> PNone \<and> es_feature_group_id self' \<noteq> PNone))"
proof (intro conjI)
  show "\<forall>self' log'.
       ExpectationSuite_init env n xs m i rv pol fs fg href kw log = (Inr self', log')
       \<and> truthy (es_id self') \<longrightarrow>
       es_feature_store_id self' \<noteq> PNone \<and> es_feature_group_id self' \<noteq> PNone"
  proof (intro allI impI)
    fix self' log'
    assume a: "ExpectationSuite_init env n xs m i rv pol fs fg href kw log = (Inr self', log')
       \<and> truthy (es_id self')"
    then have b: "ExpectationSuite_init env n xs m i rv pol fs fg href kw log = (Inr self', log')"
      by (rule conjunct1)
    from init_parents_known [OF b] a
    show "es_feature_store_id self' \<noteq> PNone \<and> es_feature_group_id self' \<noteq> PNone"
      by simp
  qed
  show "\<forall>self'. init_expectation_engine env self fs fg = Inr self' \<longrightarrow> same_identity self self'"
    by (simp add: init_engines_identity)
  show "\<forall>self'. init_expectation_suite_engine self fs fg = Inr self' \<longrightarrow> same_identity self self'"
    by (simp add: init_engines_identity)
  show "\<forall>self'. same_identity self self' \<longrightarrow>
         (truthy (es_id self) \<longrightarrow>
            es_feature_store_id self \<noteq> PNone \<and> es_feature_group_id self \<noteq> PNone) \<longrightarrow>
         (truthy (es_id self') \<longrightarrow>
            es_feature_store_id self' \<noteq> PNone \<and> es_feature_group_id self' \<noteq> PNone)"
    by (simp add: same_identity_def)
  show "same_identity self (fst (snd (get_expectation env self v ge_type log)))"
    by (simp add: get_expectation_identity same_identity_refl)
qed (rule setters_identity meta_setter_identity add_expectation_identity
    replace_expectation_identity remove_expectation_identity)+

theorem identity_kept_by_all_but_id_setter_witness:
  "truthy (es_id demo_attached)
   \<and> es_feature_store_id demo_attached \<noteq> PNone
   \<and> es_feature_group_id demo_attached \<noteq> PNone
   \<and> same_identity demo_attached
       (fst (snd (remove_expectation demo_env demo_attached (PInt 123) [])))
   \<and> es_feature_store_id (fst (snd (remove_expectation demo_env demo_attached (PInt 123) [])))
       \<noteq> PNone"
proof -
  have t: "truthy (es_id demo_attached)"
    by (simp add: demo_attached_def)
  note th = identity_kept_by_all_but_id_setter [of demo_env "PStr ''sales''"
      "PList [PDict [(''expectation_type'', PStr ''expect_column_min_to_be_between'')]]"
      "PDict []" "PInt 9" "PBool True" "PStr ''always''" "PInt 67" "PInt 12" PNone "[]" "[]"
      demo_attached "PInt 123" True]
  from th have "\<forall>self' log'.
       ExpectationSuite_init demo_env (PStr ''sales'')
         (PList [PDict [(''expectation_type'', PStr ''expect_column_min_to_be_between'')]])
         (PDict []) (PInt 9) (PBool True) (PStr ''always'') (PInt 67) (PInt 12) PNone [] []
         = (Inr self', log')
       \<and> truthy (es_id self') \<longrightarrow>
       es_feature_store_id self' \<noteq> PNone \<and> es_feature_group_id self' \<noteq> PNone"
    by (rule conjunct1)
  with demo_attached_constructed t
  have parents: "es_feature_store_id demo_attached \<noteq> PNone
      \<and> es_feature_group_id demo_attached \<noteq> PNone"
    by simp
  from th have same: "same_identity demo_attached
       (fst (snd (remove_expectation demo_env demo_attached (PInt 123) [])))"
    by (elim conjE) assumption
  from same parents have "es_feature_store_id
      (fst (snd (remove_expectation demo_env demo_attached (PInt 123) []))) \<noteq> PNone"
    by (simp add: same_identity_def)
  with t parents same show ?thesis by simp
qed

text \<open>
  C4 as stated fails at the \<open>id\<close> setter, which stores the id and looks at nothing
  else: on a suite built without parents the id is then set and both parent
  identifiers are \<open>None\<close>.
\<close>

theorem id_setter_ignores_parents:
  "ExpectationSuite_init demo_env (PStr ''sales'')
     (PList [PDict [(''expectation_type'', PStr ''expect_column_min_to_be_between'')]])
     (PDict []) PNone (PBool True) (PStr ''always'') PNone PNone PNone [] []
   = (Inr demo_unattached, [])
   \<and> es_id (id_setter demo_unattached (PInt 5)) = PInt 5
   \<and> es_feature_store_id (id_setter demo_unattached (PInt 5)) = PNone
   \<and> es_feature_group_id (id_setter demo_unattached (PInt 5)) = PNone"
  by (simp add: demo_unattached_constructed) (simp add: id_setter_def demo_unattached_def)


lemma dict_set_not_empty: "dict_set acc k v \<noteq> []"
  by (cases acc) (auto split: if_splits)

lemma process_items_not_empty: "acc \<noteq> [] \<Longrightarrow> process_items f kvs acc \<noteq> []"
proof (induction kvs arbitrary: acc)
  case Nil
  then show ?case by simp
next
  case (Cons kv kvs)
  obtain k v where kv: "kv = (k, v)" by (cases kv)
  have "process_items f kvs (dict_set acc (f k) (process_keys f v)) \<noteq> []"
    by (rule Cons.IH) (rule dict_set_not_empty)
  with kv show ?case by simp
qed

lemma process_items_empty: "(process_items f kvs [] = []) = (kvs = [])"
proof (cases kvs)
  case Nil
  then show ?thesis by simp
next
  case (Cons kv kvs')
  obtain k v where kv: "kv = (k, v)" by (cases kv)
  have "process_items f kvs' (dict_set [] (f k) (process_keys f v)) \<noteq> []"
    by (rule process_items_not_empty) simp
  with Cons kv show ?thesis by simp
qed

lemma process_list_empty: "(process_list f xs = []) = (xs = [])"
  by (cases xs) simp_all

lemma process_keys_truthy: "truthy (process_keys f v) = truthy v"
  by (cases v) (simp_all add: process_items_empty process_list_empty)

lemma process_keys_none: "(process_keys f v = PNone) = (v = PNone)"
  by (cases v) simp_all

lemma dict_set_fresh: "k \<notin> fst ` set acc \<Longrightarrow> dict_set acc k v = acc @ [(k, v)]"
  by (induction acc) auto

lemma keys_kept_unchanged:
  fixes v :: "'o pyval" and xs :: "'o pyval list" and kvs acc :: "(string \<times> 'o pyval) list"
  shows "keys_kept f v \<Longrightarrow> process_keys f v = v"
    and "keys_kept_list f xs \<Longrightarrow> process_list f xs = xs"
    and "keys_kept_items f kvs \<Longrightarrow> distinct (map fst (acc @ kvs)) \<Longrightarrow>
     process_items f kvs acc = acc @ kvs"
proof (induction f v and f xs and f kvs acc rule: process_keys_process_list_process_items.induct)
  case (11 f k v kvs acc)
  from "11.prems" have k: "f k = k" and v: "keys_kept f v" and rest: "keys_kept_items f kvs"
    by simp_all
  from "11.prems" have fresh: "k \<notin> fst ` set acc"
    by auto
  from "11.prems" have d: "distinct (map fst ((acc @ [(k, v)]) @ kvs))"
    by simp
  from "11.IH"(1) [OF v] have pv: "process_keys f v = v" .
  have "process_items f ((k, v) # kvs) acc = process_items f kvs (acc @ [(k, v)])"
    by (simp add: k pv dict_set_fresh [OF fresh])
  also have "\<dots> = (acc @ [(k, v)]) @ kvs"
    using "11.IH"(2) [OF rest] d by (simp add: k pv dict_set_fresh [OF fresh])
  finally show ?case by simp
qed simp_all

lemma convert_all_rebuilt:
  assumes "\<forall>e \<in> set es.
      GeExpectation_init env (humps_decamelize env (ge_to_json_dict env e)) = Inr e"
  shows "convert_all env
      (process_list (decamelize_key env) (map (\<lambda>e. PDict (ge_to_json_dict env e)) es)) = Inr es"
  using assms
  by (induction es) (simp_all add: convert_expectation_def humps_decamelize_def)



lemma to_json_dict_snake:
  assumes "decamelizes_suite_keys (decamelize_key env)"
  shows "to_json_dict env self True =
    [(''id'', process_keys (decamelize_key env) (es_id self)),
     (''feature_store_id'', process_keys (decamelize_key env) (es_feature_store_id self)),
     (''feature_group_id'', process_keys (decamelize_key env) (es_feature_group_id self)),
     (''expectation_suite_name'',
        process_keys (decamelize_key env) (es_expectation_suite_name self)),
     (''expectations'',
        PList (process_list (decamelize_key env)
          (map (\<lambda>e. PDict (ge_to_json_dict env e)) (es_expectations self)))),
     (''meta'', process_keys (decamelize_key env) (es_meta self)),
     (''ge_cloud_id'', process_keys (decamelize_key env) (es_ge_cloud_id self)),
     (''data_asset_type'', process_keys (decamelize_key env) (es_data_asset_type self)),
     (''run_validation'', process_keys (decamelize_key env) (es_run_validation self)),
     (''validation_ingestion_policy'', PStr (upper (es_validation_ingestion_policy self)))]"
  using assms
  by (simp add: to_json_dict_def humps_decamelize_def decamelizes_suite_keys_def)




lemma camel_call_fails:
  "ExpectationSuite_call env (to_json_dict env self False) log =
     (Inl (TypeError (''ExpectationSuite.__init__() missing 1 required positional argument: ''
             @ [CHR 0x27] @ ''expectation_suite_name'' @ [CHR 0x27])), log)"
  by (simp add: ExpectationSuite_call_def to_json_dict_def missing_arguments_def str_nat.simps)

text \<open>
  C2, as amended.  Take a suite whose name is a str, whose policy is \<open>ALWAYS\<close> or
  \<open>STRICT\<close>, whose \<open>meta\<close> is a dict, which has both parents if its id is set and not
  zero, and each of whose expectations the \<open>GeExpectation\<close> constructor rebuilds from
  its decamelized \<open>to_json_dict\<close>.  Calling the class with the entries of
  \<open>to_json_dict(decamelize=True)\<close> as keyword arguments then builds, without any engine
  call, a suite with the same name, expectations and policy, and with the \<open>meta\<close> that
  \<open>humps.decamelize\<close> made of the suite's: the same \<open>meta\<close> when its keys are in snake
  case already, and otherwise the \<open>meta\<close> with its keys converted at every depth.
  Calling the class with the entries of the default \<open>to_json_dict()\<close> raises
  \<open>TypeError\<close>: the key \<open>expectationSuiteName\<close> goes to \<open>**kwargs\<close> and the parameter
  \<open>expectation_suite_name\<close> has no value.
\<close>

theorem snake_case_round_trip:
  assumes keys: "decamelizes_suite_keys (decamelize_key env)"
    and rebuilt: "\<forall>e \<in> set (es_expectations self).
      GeExpectation_init env (humps_decamelize env (ge_to_json_dict env e)) = Inr e"
    and name: "es_expectation_suite_name self = PStr name"
    and meta: "es_meta self = PDict m"
    and parents: "truthy (es_id self) \<longrightarrow>
      es_feature_store_id self \<noteq> PNone \<and> es_feature_group_id self \<noteq> PNone"
    and policy: "es_validation_ingestion_policy self = ''ALWAYS''
      \<or> es_validation_ingestion_policy self = ''STRICT''"
  shows "(\<exists>self'. ExpectationSuite_call env (to_json_dict env self True) log = (Inr self', log)
            \<and> es_expectation_suite_name self' = es_expectation_suite_name self
            \<and> es_expectations self' = es_expectations self
            \<and> es_validation_ingestion_policy self' = es_validation_ingestion_policy self
            \<and> es_meta self' = process_keys (decamelize_key env) (es_meta self)
            \<and> (keys_kept (decamelize_key env) (es_meta self) \<longrightarrow> es_meta self' = es_meta self))
    \<and> ExpectationSuite_call env (to_json_dict env self False) log =
        (Inl (TypeError (''ExpectationSuite.__init__() missing 1 required positional argument: ''
                @ [CHR 0x27] @ ''expectation_suite_name'' @ [CHR 0x27])), log)"
proof (intro conjI)
  let ?f = "decamelize_key env"
  have conv: "convert_all env
      (process_list ?f (map (\<lambda>e. PDict (ge_to_json_dict env e)) (es_expectations self)))
      = Inr (es_expectations self)"
    using rebuilt by (rule convert_all_rebuilt)
  have upper_policy: "upper (es_validation_ingestion_policy self) =
      es_validation_ingestion_policy self"
    using policy by (auto simp: upper_def upper_char_def)
  have kept: "keys_kept ?f (es_meta self) \<longrightarrow> process_keys ?f (es_meta self) = es_meta self"
    by (simp add: keys_kept_unchanged(1))
  have call: "ExpectationSuite_call env (to_json_dict env self True) log =
      ExpectationSuite_init env
        (process_keys ?f (es_expectation_suite_name self))
        (PList (process_list ?f (map (\<lambda>e. PDict (ge_to_json_dict env e)) (es_expectations self))))
        (process_keys ?f (es_meta self))
        (process_keys ?f (es_id self))
        (process_keys ?f (es_run_validation self))
        (PStr (upper (es_validation_ingestion_policy self)))
        (process_keys ?f (es_feature_store_id self))
        (process_keys ?f (es_feature_group_id self))
        PNone
        [(''ge_cloud_id'', process_keys ?f (es_ge_cloud_id self)),
         (''data_asset_type'', process_keys ?f (es_data_asset_type self))]
        log"
    by (simp add: to_json_dict_snake [OF keys] ExpectationSuite_call_def keyword_def
        init_parameters_def)
  show "\<exists>self'. ExpectationSuite_call env (to_json_dict env self True) log = (Inr self', log)
            \<and> es_expectation_suite_name self' = es_expectation_suite_name self
            \<and> es_expectations self' = es_expectations self
            \<and> es_validation_ingestion_policy self' = es_validation_ingestion_policy self
            \<and> es_meta self' = process_keys (decamelize_key env) (es_meta self)
            \<and> (keys_kept (decamelize_key env) (es_meta self) \<longrightarrow> es_meta self' = es_meta self)"
    unfolding call using parents kept
    by (simp add: ExpectationSuite_init_def Let_def expectations_setter_def conv meta_setter_def
        meta name process_keys_truthy process_keys_none upper_policy)
  show "ExpectationSuite_call env (to_json_dict env self False) log =
        (Inl (TypeError (''ExpectationSuite.__init__() missing 1 required positional argument: ''
                @ [CHR 0x27] @ ''expectation_suite_name'' @ [CHR 0x27])), log)"
    by (rule camel_call_fails)
qed

theorem snake_case_round_trip_witness:
  "es_meta demo_documented =
     PDict [(''owner'', PStr ''ops''), (''last_review'', PDict [(''run_id'', PInt 3)])]
   \<and> keys_kept (decamelize_key demo_env) (es_meta demo_documented)
   \<and> ExpectationSuite_call demo_env (to_json_dict demo_env demo_documented True) [] =
       (Inr demo_documented, [])
   \<and> ExpectationSuite_call demo_env (to_json_dict demo_env demo_unattached True) [] =
       (Inr demo_unattached, [])"
proof -
  have keys: "decamelizes_suite_keys (decamelize_key demo_env)"
    by (simp add: decamelizes_suite_keys_def demo_env_def demo_decamelize_key_def)
  have rebuilt: "\<forall>e \<in> set (es_expectations demo_documented).
      GeExpectation_init demo_env (humps_decamelize demo_env (ge_to_json_dict demo_env e)) = Inr e"
    by (simp add: demo_documented_def demo_attached_def demo_unattached_def demo_env_def
        humps_decamelize_def demo_to_json_dict_def demo_GeExpectation_init_def
        demo_decamelize_key_def)
  have rebuilt': "\<forall>e \<in> set (es_expectations demo_unattached).
      GeExpectation_init demo_env (humps_decamelize demo_env (ge_to_json_dict demo_env e)) = Inr e"
    by (simp add: demo_unattached_def demo_env_def humps_decamelize_def
        demo_to_json_dict_def demo_GeExpectation_init_def demo_decamelize_key_def)
  have name: "es_expectation_suite_name demo_documented = PStr ''sales''"
    "es_expectation_suite_name demo_unattached = PStr ''sales''"
    by (simp_all add: demo_documented_def demo_attached_def demo_unattached_def)
  have meta: "es_meta demo_documented =
      PDict [(''owner'', PStr ''ops''), (''last_review'', PDict [(''run_id'', PInt 3)])]"
    "es_meta demo_unattached = PDict []"
    by (simp_all add: demo_documented_def demo_attached_def demo_unattached_def)
  have kept: "keys_kept (decamelize_key demo_env) (es_meta demo_documented)"
    by (simp add: meta demo_env_def demo_decamelize_key_def)
  have parents: "truthy (es_id demo_documented) \<longrightarrow>
      es_feature_store_id demo_documented \<noteq> PNone \<and> es_feature_group_id demo_documented \<noteq> PNone"
    "truthy (es_id demo_unattached) \<longrightarrow>
      es_feature_store_id demo_unattached \<noteq> PNone \<and> es_feature_group_id demo_unattached \<noteq> PNone"
    by (simp_all add: demo_documented_def demo_attached_def demo_unattached_def)
  have policy: "es_validation_ingestion_policy demo_documented = ''ALWAYS''
      \<or> es_validation_ingestion_policy demo_documented = ''STRICT''"
    "es_validation_ingestion_policy demo_unattached = ''ALWAYS''
      \<or> es_validation_ingestion_policy demo_unattached = ''STRICT''"
    by (simp_all add: demo_documented_def demo_attached_def demo_unattached_def)
  have a: "ExpectationSuite_call demo_env (to_json_dict demo_env demo_documented True) [] =
     (Inr demo_documented, [])"
    by (simp add: to_json_dict_def humps_decamelize_def ExpectationSuite_call_def keyword_def
        init_parameters_def ExpectationSuite_init_def expectations_setter_def
        convert_expectation_def meta_setter_def
        demo_documented_def demo_attached_def demo_unattached_def demo_env_def
        demo_to_json_dict_def demo_GeExpectation_init_def demo_decamelize_key_def upper_def
        upper_char_def)
  have u: "ExpectationSuite_call demo_env (to_json_dict demo_env demo_unattached True) [] =
     (Inr demo_unattached, [])"
    by (simp add: to_json_dict_def humps_decamelize_def ExpectationSuite_call_def keyword_def
        init_parameters_def ExpectationSuite_init_def expectations_setter_def
        convert_expectation_def meta_setter_def
        demo_unattached_def demo_env_def demo_to_json_dict_def
        demo_GeExpectation_init_def demo_decamelize_key_def upper_def upper_char_def)
  from snake_case_round_trip [OF keys rebuilt name(1) meta(1) parents(1) policy(1), of "[]"]
    snake_case_round_trip [OF keys rebuilt' name(2) meta(2) parents(2) policy(2), of "[]"]
    a u kept meta(1)
  show ?thesis by simp
qed

text \<open>
  C2 as stated fails for the default key variant: the dict of a suite built by
  \<open>ExpectationSuite("sales", [...], {})\<close> has no key \<open>expectation_suite_name\<close>, and
  the constructor raises.  It fails for the snake case variant on a \<open>meta\<close> with a key
  in camel case: the suite built with \<open>meta={"ownerTeam": "ops"}\<close> comes back with
  \<open>meta={"owner_team": "ops"}\<close>.
\<close>

theorem round_trip_fails_on_camel_case_keys:
  "to_json_dict demo_env demo_unattached False =
     [(''id'', PNone), (''featureStoreId'', PNone), (''featureGroupId'', PNone),
      (''expectationSuiteName'', PStr ''sales''),
      (''expectations'',
         PList [PDict [(''expectation_type'', PStr ''expect_column_min_to_be_between'')]]),
      (''meta'', PDict []), (''geCloudId'', PNone), (''dataAssetType'', PNone),
      (''runValidation'', PBool True), (''validationIngestionPolicy'', PStr ''ALWAYS'')]
   \<and> ExpectationSuite_call demo_env (to_json_dict demo_env demo_unattached False) [] =
       (Inl (TypeError (''ExpectationSuite.__init__() missing 1 required positional argument: ''
               @ [CHR 0x27] @ ''expectation_suite_name'' @ [CHR 0x27])), [])
   \<and> ExpectationSuite_init demo_env (PStr ''sales'')
       (PList [PDict [(''expectation_type'', PStr ''expect_column_min_to_be_between'')]])
       (PDict [(''ownerTeam'', PStr ''ops'')]) PNone (PBool True) (PStr ''always'') PNone PNone PNone
       [] [] = (Inr demo_camel_meta, [])
   \<and> ExpectationSuite_call demo_env (to_json_dict demo_env demo_camel_meta True) [] =
       (Inr (demo_camel_meta\<lparr>es_meta := PDict [(''owner_team'', PStr ''ops'')]\<rparr>), [])"
  by (simp add: camel_call_fails)
    (simp add: to_json_dict_def humps_decamelize_def ExpectationSuite_call_def keyword_def
      init_parameters_def ExpectationSuite_init_def expectations_setter_def
      convert_expectation_def meta_setter_def demo_camel_meta_def
      demo_unattached_def demo_env_def demo_to_json_dict_def
      demo_GeExpectation_init_def demo_decamelize_key_def upper_def upper_char_def)

end
